theory Spec2Isabelle
  imports Complex_Main
begin

section \<open>Errors, configuration and the module tree\<close>

text \<open>
  The sources are \<^verbatim>\<open>llm/llm/gpt_old.py\<close> (GPT and ComposerGPT),
  \<^verbatim>\<open>llm/llm/gpt.py\<close> (ComposerGPT over a HuggingFace model) and
  \<^verbatim>\<open>llm/src/mosaic_bert.py\<close> (MosaicBert and ComposerMosaicBert).
  Every exception the Python code can raise is a value of \<open>error\<close>; a function that may
  raise returns \<open>error + 'a\<close> with \<open>Inl\<close> for the exception.
\<close>

datatype error =
    ValueError string
  | AssertionError string
  | RuntimeError string
  | IndexError string
  | ZeroDivisionError string
  | AttributeError string
  | TypeError string
  | ImportError string
  | KeyError string

definition bind_e :: "error + 'a \<Rightarrow> ('a \<Rightarrow> error + 'b) \<Rightarrow> error + 'b" where
  "bind_e r f = (case r of Inl e \<Rightarrow> Inl e | Inr x \<Rightarrow> f x)"

fun sequence_e :: "(error + 'a) list \<Rightarrow> error + 'a list" where
  "sequence_e [] = Inr []"
| "sequence_e (r # rs) =
     (case r of
        Inl e \<Rightarrow> Inl e
      | Inr x \<Rightarrow> (case sequence_e rs of Inl e \<Rightarrow> Inl e | Inr xs \<Rightarrow> Inr (x # xs)))"

text \<open>
  The device strings the library accepts: \<^verbatim>\<open>'meta'\<close>, \<^verbatim>\<open>'cpu'\<close> and \<^verbatim>\<open>'cuda:n'\<close>.
  \<^verbatim>\<open>device != 'meta'\<close> is the comparison with \<open>MetaDevice\<close>. Any other string is refused
  by the library at the first allocation and is not a value of this type.
\<close>

datatype device = MetaDevice | Cpu | Cuda nat

text \<open>The fields of \<^verbatim>\<open>cfg\<close> that the three files read.\<close>

record cfg =
  name :: string
  device :: device
  vocab_size :: nat
  d_model :: nat
  n_heads :: nat
  n_layers :: nat
  max_seq_len :: nat
  mlp_ratio :: nat
  init_std :: real
  emb_pdrop :: real
  resid_pdrop :: real
  attn_pdrop :: real
  attn_impl :: string

type_synonym vec = "real list"
type_synonym mat = "real list list"

text \<open>
  A parameter tensor is seen in two ways. For construction and initialisation it is a shape
  together with the record of what last wrote its values: nothing (\<open>Meta\<close>, a tensor on the
  meta device), the library's default initialiser, a draw from a normal distribution with
  the given mean and standard deviation, or a constant fill. For the forward pass it is a
  matrix or a vector of reals. The module tree is polymorphic in both.
\<close>

datatype fill = Meta | Default | Normal real real | Zeros | Ones

record param =
  pshape :: "nat list"
  pfill :: fill

text \<open>
  \<^verbatim>\<open>torch.nn.Module\<close>: a class, its own parameters, buffers and plain attributes
  (the payload of the class constructor below: for the two attention classes of the
  libraries the packed input projection where it is a bare parameter, \<^verbatim>\<open>embed_dim\<close> and
  \<^verbatim>\<open>num_heads\<close>; for \<^verbatim>\<open>TorchCausalAttention\<close> its buffer \<^verbatim>\<open>mask\<close>), and its named
  child modules in registration order (\<^verbatim>\<open>_modules\<close>). \<^verbatim>\<open>isinstance(module, C)\<close> is a test on the
  class constructor; no class of the repository is subclassed.
\<close>

datatype ('m, 'v) cls =
    Linear (weight: 'm) (bias: "'v option") (is_residual: bool)
  | Embedding 'm
  | LayerNorm 'v 'v
  | Dropout real
  | GELU
  | MultiheadAttention 'm 'v nat nat
  | FlashMHA nat nat bool
  | FlashAttention real
  | TorchCausalAttention mat
  | FlashCausalAttention
  | GPTMLP
  | GPTBlock
  | ModuleList
  | ModuleDict
  | GPT cfg
  | FlashNonCausalAttention
  | BERTMLP
  | BERTBlock
  | MosaicBert cfg

datatype ('m, 'v) module = Module (cls_of: "('m, 'v) cls") (children: "(string \<times> ('m, 'v) module) list")

type_synonym pmodule = "(param, param) module"
type_synonym nmodule = "(mat, vec) module"

text \<open>\<^verbatim>\<open>Module.modules()\<close>: the module itself and all its descendants.\<close>

fun modules :: "('m, 'v) module \<Rightarrow> ('m, 'v) module list" where
  "modules (Module c ch) = Module c ch # concat (map (\<lambda>p. modules (snd p)) ch)"

text \<open>
  \<^verbatim>\<open>Module.apply(fn)\<close>: \<^verbatim>\<open>for module in self.children(): module.apply(fn)\<close>, then
  \<^verbatim>\<open>fn(self)\<close>. \<open>fn\<close> mutates the module in place; here it returns the mutated module.
\<close>

fun apply_fn :: "(('m, 'v) module \<Rightarrow> error + ('m, 'v) module) \<Rightarrow> ('m, 'v) module
    \<Rightarrow> error + ('m, 'v) module" where
  "apply_fn fn (Module c ch) =
     (case sequence_e (map (\<lambda>p. case apply_fn fn (snd p) of
                                   Inl e \<Rightarrow> Inl e
                                 | Inr m \<Rightarrow> Inr (fst p, m)) ch) of
        Inl e \<Rightarrow> Inl e
      | Inr ch' \<Rightarrow> fn (Module c ch'))"


section \<open>Construction\<close>

text \<open>
  Python's \<^verbatim>\<open>str(i)\<close> for a non-negative integer: the keys under which
  \<^verbatim>\<open>nn.ModuleList\<close> registers its elements.
\<close>

function str_nat :: "nat \<Rightarrow> string" where
  "str_nat n =
     (if n < 10 then [''0123456789'' ! n]
      else str_nat (n div 10) @ [''0123456789'' ! (n mod 10)])"
  by pat_completeness auto
termination
  by (relation "measure id") auto

text \<open>
  A freshly allocated parameter: no storage on the meta device, the library's default
  initialiser elsewhere.
\<close>

definition new_param :: "device \<Rightarrow> nat list \<Rightarrow> param" where
  "new_param dev shape =
     \<lparr>pshape = shape, pfill = (if dev = MetaDevice then Meta else Default)\<rparr>"

text \<open>
  The library constructors, as far as the repository relies on them: which parameters and
  children a module of the class owns, and which arguments they refuse.
  \<^item> \<^verbatim>\<open>nn.Dropout(p)\<close> raises ValueError when \<open>p\<close> is outside \<open>[0, 1]\<close> (the message goes
    on with the value of \<open>p\<close>).
  \<^item> \<^verbatim>\<open>nn.MultiheadAttention\<close> (PyTorch 1.12 and 1.13, the releases of the repository's
    time) computes \<^verbatim>\<open>embed_dim // num_heads\<close>, which raises ZeroDivisionError for no
    heads, and asserts that the heads divide the width. It owns
    \<^verbatim>\<open>in_proj_weight\<close> and \<^verbatim>\<open>in_proj_bias\<close> as bare parameters and \<^verbatim>\<open>out_proj\<close> as a
    child that is an instance of \<^verbatim>\<open>nn.Linear\<close>. Its dropout probability is not checked
    by the constructor.
  \<^item> \<^verbatim>\<open>FlashMHA\<close> belongs to the external \<^verbatim>\<open>flash_attn\<close> package. Which widths and
    head counts its constructor refuses, and with which exception, is the parameter
    \<open>flash_error\<close>: \<open>flash_error embed_dim num_heads\<close> is the exception it raises, if
    any. It owns the children \<^verbatim>\<open>Wqkv\<close>, \<^verbatim>\<open>inner_attn\<close> and \<^verbatim>\<open>out_proj\<close>.
  \<^item> \<^verbatim>\<open>nn.Linear\<close>, \<^verbatim>\<open>nn.Embedding\<close>, \<^verbatim>\<open>nn.LayerNorm\<close> and \<^verbatim>\<open>nn.GELU\<close> accept every
    size that is a natural number.
\<close>

definition nn_Linear :: "nat \<Rightarrow> nat \<Rightarrow> bool \<Rightarrow> device \<Rightarrow> pmodule" where
  "nn_Linear in_features out_features has_bias dev =
     Module (Linear (new_param dev [out_features, in_features])
                    (if has_bias then Some (new_param dev [out_features]) else None)
                    False) []"

definition nn_Embedding :: "nat \<Rightarrow> nat \<Rightarrow> device \<Rightarrow> pmodule" where
  "nn_Embedding num_embeddings embedding_dim dev =
     Module (Embedding (new_param dev [num_embeddings, embedding_dim])) []"

definition nn_LayerNorm :: "nat \<Rightarrow> device \<Rightarrow> pmodule" where
  "nn_LayerNorm normalized_shape dev =
     Module (LayerNorm (new_param dev [normalized_shape]) (new_param dev [normalized_shape])) []"

definition nn_Dropout :: "real \<Rightarrow> error + pmodule" where
  "nn_Dropout p =
     (if p < 0 \<or> 1 < p
      then Inl (ValueError ''dropout probability has to be between 0 and 1'')
      else Inr (Module (Dropout p) []))"

definition nn_GELU :: pmodule where
  "nn_GELU = Module GELU []"

definition nn_MultiheadAttention :: "nat \<Rightarrow> nat \<Rightarrow> real \<Rightarrow> device \<Rightarrow> error + pmodule" where
  "nn_MultiheadAttention embed_dim num_heads dropout dev =
     (if num_heads = 0
      then Inl (ZeroDivisionError ''integer division or modulo by zero'')
      else if (embed_dim div num_heads) * num_heads \<noteq> embed_dim
      then Inl (AssertionError ''embed_dim must be divisible by num_heads'')
      else Inr (Module (MultiheadAttention (new_param dev [3 * embed_dim, embed_dim])
                                           (new_param dev [3 * embed_dim]) embed_dim num_heads)
                  [(''out_proj'', nn_Linear embed_dim embed_dim True dev)]))"

definition FlashMHA_init ::
  "(nat \<Rightarrow> nat \<Rightarrow> error option) \<Rightarrow> nat \<Rightarrow> nat \<Rightarrow> real \<Rightarrow> bool \<Rightarrow> device
     \<Rightarrow> error + pmodule" where
  "FlashMHA_init flash_error embed_dim num_heads attention_dropout causal dev =
     (case flash_error embed_dim num_heads of
        Some e \<Rightarrow> Inl e
      | None \<Rightarrow>
          Inr (Module (FlashMHA embed_dim num_heads causal)
                 [(''Wqkv'', nn_Linear embed_dim (3 * embed_dim) True dev),
                  (''inner_attn'', Module (FlashAttention attention_dropout) []),
                  (''out_proj'', nn_Linear embed_dim embed_dim True dev)]))"

definition nn_ModuleList :: "('m, 'v) module list \<Rightarrow> ('m, 'v) module" where
  "nn_ModuleList ms = Module ModuleList (map (\<lambda>i. (str_nat i, ms ! i)) [0..<length ms])"

text \<open>
  \<^verbatim>\<open>torch.tril(torch.ones(n, n))\<close>: the float matrix with 1 on and below the diagonal and
  0 above it.
\<close>

definition torch_ones :: "nat \<Rightarrow> nat \<Rightarrow> mat" where
  "torch_ones r c = replicate r (replicate c 1)"

definition torch_tril :: "mat \<Rightarrow> mat" where
  "torch_tril m =
     map (\<lambda>i. map (\<lambda>j. if j \<le> i then (m ! i) ! j else 0) [0..<length (m ! i)]) [0..<length m]"

text \<open>
  \<^verbatim>\<open>self.mha.out_proj._is_residual = True\<close> and \<^verbatim>\<open>self.mlp_down._is_residual = True\<close>:
  the attribute is set on a module that is a Linear, the only class on which
  \<^verbatim>\<open>param_init_fn\<close> reads it.
\<close>

fun set_is_residual :: "('m, 'v) module \<Rightarrow> ('m, 'v) module" where
  "set_is_residual (Module (Linear w b r) ch) = Module (Linear w b True) ch"
| "set_is_residual m = m"

fun update_child :: "string \<Rightarrow> (('m, 'v) module \<Rightarrow> ('m, 'v) module) \<Rightarrow> ('m, 'v) module
    \<Rightarrow> ('m, 'v) module" where
  "update_child n f (Module c ch) = Module c (map (\<lambda>p. if fst p = n then (fst p, f (snd p)) else p) ch)"

subsection \<open>gpt\_old.py\<close>

definition TorchCausalAttention_init :: "cfg \<Rightarrow> device \<Rightarrow> error + pmodule" where
  "TorchCausalAttention_init c dev =
     bind_e (nn_MultiheadAttention (d_model c) (n_heads c) (attn_pdrop c) dev)
       (\<lambda>mha.
          let self_mask = torch_tril (torch_ones (max_seq_len c) (max_seq_len c))
          in Inr (Module (TorchCausalAttention self_mask)
                    [(''mha'', update_child ''out_proj'' set_is_residual mha)]))"

definition FlashCausalAttention_init :: "(nat \<Rightarrow> nat \<Rightarrow> error option) \<Rightarrow> cfg \<Rightarrow> device \<Rightarrow> error + pmodule" where
  "FlashCausalAttention_init flash_error c dev =
     bind_e (FlashMHA_init flash_error (d_model c) (n_heads c) (attn_pdrop c) True dev)
       (\<lambda>mha. Inr (Module FlashCausalAttention
                      [(''mha'', update_child ''out_proj'' set_is_residual mha)]))"

definition GPTMLP_init :: "cfg \<Rightarrow> device \<Rightarrow> pmodule" where
  "GPTMLP_init c dev =
     Module GPTMLP
       [(''mlp_up'', nn_Linear (d_model c) (mlp_ratio c * d_model c) True dev),
        (''mlp_act'', nn_GELU),
        (''mlp_down'', set_is_residual (nn_Linear (mlp_ratio c * d_model c) (d_model c) True dev))]"

definition GPTBlock_init :: "(nat \<Rightarrow> nat \<Rightarrow> error option) \<Rightarrow> cfg \<Rightarrow> device \<Rightarrow> error + pmodule" where
  "GPTBlock_init flash_error c dev =
     (let ln_1 = nn_LayerNorm (d_model c) dev in
      bind_e (if attn_impl c = ''torch'' then TorchCausalAttention_init c dev
              else if attn_impl c = ''flash'' then FlashCausalAttention_init flash_error c dev
              else Inl (ValueError (''Unknown attn_impl='' @ attn_impl c)))
        (\<lambda>causal_attn.
           let ln_2 = nn_LayerNorm (d_model c) dev;
               mlp = GPTMLP_init c dev
           in bind_e (nn_Dropout (resid_pdrop c))
                (\<lambda>resid_attn_dropout. bind_e (nn_Dropout (resid_pdrop c))
                (\<lambda>resid_mlp_dropout.
                   Inr (Module GPTBlock
                     [(''ln_1'', ln_1),
                      (''causal_attn'', causal_attn),
                      (''ln_2'', ln_2),
                      (''mlp'', mlp),
                      (''resid_attn_dropout'', resid_attn_dropout),
                      (''resid_mlp_dropout'', resid_mlp_dropout)])))))"

text \<open>
  \<^verbatim>\<open>param_init_fn\<close>, the same text in \<^verbatim>\<open>GPT\<close> and in \<^verbatim>\<open>MosaicBert\<close>. The library's
  in-place initialisers \<^verbatim>\<open>normal_\<close>, \<^verbatim>\<open>zeros_\<close> and \<^verbatim>\<open>ones_\<close> overwrite the values of a
  tensor that has storage; on a tensor of the meta device they write nothing and the tensor
  stays without values. \<^verbatim>\<open>init_std / math.sqrt(2 * n_layers)\<close> is a Python float
  division, which raises when the divisor is zero.
\<close>

definition init_normal :: "param \<Rightarrow> real \<Rightarrow> real \<Rightarrow> param" where
  "init_normal t mean std = (if pfill t = Meta then t else t\<lparr>pfill := Normal mean std\<rparr>)"

definition init_zeros :: "param \<Rightarrow> param" where
  "init_zeros t = (if pfill t = Meta then t else t\<lparr>pfill := Zeros\<rparr>)"

definition init_ones :: "param \<Rightarrow> param" where
  "init_ones t = (if pfill t = Meta then t else t\<lparr>pfill := Ones\<rparr>)"

definition py_div :: "real \<Rightarrow> real \<Rightarrow> error + real" where
  "py_div a b = (if b = 0 then Inl (ZeroDivisionError ''float division by zero'') else Inr (a / b))"

definition init_Linear :: "cfg \<Rightarrow> pmodule \<Rightarrow> error + pmodule" where
  "init_Linear c m =
     (case m of
        Module (Linear w b r) ch \<Rightarrow>
          (let w1 = init_normal w 0 (init_std c);
               b1 = map_option init_zeros b
           in if r then
                bind_e (py_div (init_std c) (sqrt (real (2 * n_layers c))))
                  (\<lambda>std. Inr (Module (Linear (init_normal w1 0 std) b1 r) ch))
              else Inr (Module (Linear w1 b1 r) ch))
      | _ \<Rightarrow> Inr m)"

definition init_Embedding :: "cfg \<Rightarrow> pmodule \<Rightarrow> pmodule" where
  "init_Embedding c m =
     (case m of
        Module (Embedding w) ch \<Rightarrow> Module (Embedding (init_normal w 0 (init_std c))) ch
      | _ \<Rightarrow> m)"

definition init_LayerNorm :: "pmodule \<Rightarrow> pmodule" where
  "init_LayerNorm m =
     (case m of
        Module (LayerNorm w b) ch \<Rightarrow> Module (LayerNorm (init_ones w) (init_zeros b)) ch
      | _ \<Rightarrow> m)"

definition param_init_fn :: "cfg \<Rightarrow> pmodule \<Rightarrow> error + pmodule" where
  "param_init_fn c m =
     bind_e (init_Linear c m) (\<lambda>m1. Inr (init_LayerNorm (init_Embedding c m1)))"

definition GPT_init :: "(nat \<Rightarrow> nat \<Rightarrow> error option) \<Rightarrow> cfg \<Rightarrow> device \<Rightarrow> error + pmodule" where
  "GPT_init flash_error c dev =
     (let wte = nn_Embedding (vocab_size c) (d_model c) dev;
          wpe = nn_Embedding (max_seq_len c) (d_model c) dev
      in bind_e (nn_Dropout (emb_pdrop c))
           (\<lambda>emb_drop.
              bind_e (sequence_e (map (\<lambda>_. GPTBlock_init flash_error c dev) [0..<n_layers c]))
                (\<lambda>blocks.
                   let self = Module (GPT c)
                         [(''transformer'', Module ModuleDict
                             [(''wte'', wte),
                              (''wpe'', wpe),
                              (''emb_drop'', emb_drop),
                              (''blocks'', nn_ModuleList blocks),
                              (''ln_f'', nn_LayerNorm (d_model c) dev)]),
                          (''lm_head'', nn_Linear (d_model c) (vocab_size c) False dev)]
                   in if dev \<noteq> MetaDevice then apply_fn (param_init_fn c) self else Inr self)))"

text \<open>\<^verbatim>\<open>fsdp_wrap_fn\<close> and \<^verbatim>\<open>activation_checkpointing_fn\<close> of \<^verbatim>\<open>GPT\<close>.\<close>

definition GPT_fsdp_wrap_fn :: "('m, 'v) module \<Rightarrow> bool" where
  "GPT_fsdp_wrap_fn m = (case cls_of m of GPTBlock \<Rightarrow> True | _ \<Rightarrow> False)"

definition GPT_activation_checkpointing_fn :: "('m, 'v) module \<Rightarrow> bool" where
  "GPT_activation_checkpointing_fn m = (case cls_of m of GPTBlock \<Rightarrow> True | _ \<Rightarrow> False)"

subsection \<open>mosaic\_bert.py\<close>

text \<open>
  \<^verbatim>\<open>FlashNonCausalAttention.__init__\<close> imports \<^verbatim>\<open>flash_attn\<close> and re-raises the
  ImportError; whether the package is installed is the parameter \<open>have_flash\<close>.
\<close>

definition FlashNonCausalAttention_init ::
  "bool \<Rightarrow> (nat \<Rightarrow> nat \<Rightarrow> error option) \<Rightarrow> cfg \<Rightarrow> device \<Rightarrow> error + pmodule" where
  "FlashNonCausalAttention_init have_flash flash_error c dev =
     (if \<not> have_flash then Inl (ImportError ''flash_attn'')
      else
        bind_e (FlashMHA_init flash_error (d_model c) (n_heads c) (attn_pdrop c) False dev)
          (\<lambda>mha. Inr (Module FlashNonCausalAttention
                         [(''mha'', update_child ''out_proj'' set_is_residual mha)])))"

definition BERTMLP_init :: "cfg \<Rightarrow> device \<Rightarrow> pmodule" where
  "BERTMLP_init c dev =
     Module BERTMLP
       [(''mlp_up'', nn_Linear (d_model c) (mlp_ratio c * d_model c) True dev),
        (''mlp_act'', nn_GELU),
        (''mlp_down'', set_is_residual (nn_Linear (mlp_ratio c * d_model c) (d_model c) True dev))]"

definition BERTBlock_init :: "bool \<Rightarrow> (nat \<Rightarrow> nat \<Rightarrow> error option) \<Rightarrow> cfg \<Rightarrow> device \<Rightarrow> error + pmodule" where
  "BERTBlock_init have_flash flash_error c dev =
     (let ln_1 = nn_LayerNorm (d_model c) dev in
      bind_e (if attn_impl c = ''flash''
              then FlashNonCausalAttention_init have_flash flash_error c dev
              else Inl (ValueError (''Unknown attn_impl='' @ attn_impl c)))
        (\<lambda>causal_attn.
           let ln_2 = nn_LayerNorm (d_model c) dev;
               mlp = BERTMLP_init c dev
           in bind_e (nn_Dropout (resid_pdrop c))
                (\<lambda>resid_attn_dropout. bind_e (nn_Dropout (resid_pdrop c))
                (\<lambda>resid_mlp_dropout.
                   Inr (Module BERTBlock
                     [(''ln_1'', ln_1),
                      (''causal_attn'', causal_attn),
                      (''ln_2'', ln_2),
                      (''mlp'', mlp),
                      (''resid_attn_dropout'', resid_attn_dropout),
                      (''resid_mlp_dropout'', resid_mlp_dropout)])))))"

definition MosaicBert_init :: "bool \<Rightarrow> (nat \<Rightarrow> nat \<Rightarrow> error option) \<Rightarrow> cfg \<Rightarrow> error + pmodule" where
  "MosaicBert_init have_flash flash_error c =
     (if name c \<noteq> ''mosaic_bert''
      then Inl (AssertionError (''Tried to build MosaicBert model with cfg.name='' @ name c))
      else
        (let wte = nn_Embedding (vocab_size c) (d_model c) (device c);
             wpe = nn_Embedding (max_seq_len c) (d_model c) (device c)
         in bind_e (nn_Dropout (emb_pdrop c))
              (\<lambda>emb_drop.
                 bind_e (sequence_e (map (\<lambda>_. BERTBlock_init have_flash flash_error c (device c))
                                       [0..<n_layers c]))
                   (\<lambda>blocks.
                      let self = Module (MosaicBert c)
                            [(''transformer'', Module ModuleDict
                                [(''wte'', wte),
                                 (''wpe'', wpe),
                                 (''emb_drop'', emb_drop),
                                 (''blocks'', nn_ModuleList blocks),
                                 (''ln_f'', nn_LayerNorm (d_model c) (device c))]),
                             (''lm_head'', nn_Linear (d_model c) (vocab_size c) False (device c))]
                      in if device c \<noteq> MetaDevice then apply_fn (param_init_fn c) self
                         else Inr self))))"

definition MosaicBert_fsdp_wrap_fn :: "('m, 'v) module \<Rightarrow> bool" where
  "MosaicBert_fsdp_wrap_fn m = (case cls_of m of BERTBlock \<Rightarrow> True | _ \<Rightarrow> False)"

definition MosaicBert_activation_checkpointing_fn :: "('m, 'v) module \<Rightarrow> bool" where
  "MosaicBert_activation_checkpointing_fn m = (case cls_of m of BERTBlock \<Rightarrow> True | _ \<Rightarrow> False)"


section \<open>Integer tensors, the object store and batches\<close>

text \<open>
  A two-dimensional \<^verbatim>\<open>LongTensor\<close>: its two sizes and its elements in row-major order,
  as the library stores a contiguous tensor. The element at \<open>(b, i)\<close> is at offset
  \<open>b * size1 + i\<close>.
\<close>

record tensor2 =
  size0 :: nat
  size1 :: nat
  data :: "int list"

definition wf_tensor2 :: "tensor2 \<Rightarrow> bool" where
  "wf_tensor2 t = (length (data t) = size0 t * size1 t)"

definition at2 :: "tensor2 \<Rightarrow> nat \<Rightarrow> nat \<Rightarrow> int" where
  "at2 t b i = data t ! (b * size1 t + i)"

definition rows2 :: "tensor2 \<Rightarrow> int list list" where
  "rows2 t = map (\<lambda>b. take (size1 t) (drop (b * size1 t) (data t))) [0..<size0 t]"

text \<open>
  \<^verbatim>\<open>torch.roll(input, shifts)\<close> with no \<^verbatim>\<open>dims\<close>: the tensor is flattened, rolled and
  restored to its shape; the element at flat position \<open>k\<close> moves to position
  \<open>(k + shifts) mod n\<close>. The result is a new tensor.
\<close>

definition torch_roll :: "tensor2 \<Rightarrow> int \<Rightarrow> tensor2" where
  "torch_roll t shifts =
     t\<lparr>data := rotate (nat ((- shifts) mod int (length (data t)))) (data t)\<rparr>"

text \<open>
  \<^verbatim>\<open>t[:, j] = v\<close>: a Python index into dimension 1, negative indices counting from the
  end, an index out of range raising IndexError; every row is written at that column.
\<close>

definition setitem_col :: "tensor2 \<Rightarrow> int \<Rightarrow> int \<Rightarrow> error + tensor2" where
  "setitem_col t j v =
     (let n = int (size1 t);
          k = (if j < 0 then j + n else j)
      in if k < 0 \<or> n \<le> k
         then Inl (IndexError ''index out of bounds for dimension 1'')
         else Inr (t\<lparr>data := foldl (\<lambda>d b. d[b * size1 t + nat k := v]) (data t) [0..<size0 t]\<rparr>))"

text \<open>
  Tensors are objects: a batch holds references, \<^verbatim>\<open>torch.roll\<close> allocates a new object
  and an indexed assignment writes into the object it is applied to. The store maps
  references to tensors; references below \<open>next_ref\<close> are the allocated ones.
\<close>

type_synonym ref = nat

record heap =
  store :: "ref \<Rightarrow> tensor2"
  next_ref :: ref

definition alloc :: "heap \<Rightarrow> tensor2 \<Rightarrow> ref \<times> heap" where
  "alloc h t = (next_ref h, h\<lparr>store := (store h)(next_ref h := t), next_ref := Suc (next_ref h)\<rparr>)"

definition write_ref :: "heap \<Rightarrow> ref \<Rightarrow> tensor2 \<Rightarrow> heap" where
  "write_ref h r t = h\<lparr>store := (store h)(r := t)\<rparr>"

type_synonym batch = "string \<rightharpoonup> ref"

definition getitem :: "batch \<Rightarrow> string \<Rightarrow> error + ref" where
  "getitem batch k = (case batch k of None \<Rightarrow> Inl (KeyError k) | Some r \<Rightarrow> Inr r)"

section \<open>The library's numeric functions\<close>

text \<open>
  Floating-point tensors are lists of reals: a vector, a matrix as the list of its rows, an
  activation tensor of shape (batch, sequence, width) as a list of matrices. Arithmetic is
  exact. Dropout is the identity, as in evaluation mode or with probability 0.
\<close>

definition dot :: "vec \<Rightarrow> vec \<Rightarrow> real" where
  "dot x y = sum_list (map2 (*) x y)"

definition vadd :: "vec \<Rightarrow> vec \<Rightarrow> vec" where
  "vadd x y = map2 (+) x y"

definition vscale :: "real \<Rightarrow> vec \<Rightarrow> vec" where
  "vscale a x = map ((*) a) x"

definition tadd :: "mat list \<Rightarrow> mat list \<Rightarrow> mat list" where
  "tadd x y = map2 (map2 vadd) x y"

definition mat_shape :: "'a list list \<Rightarrow> nat \<times> nat" where
  "mat_shape m = (length m, case m of [] \<Rightarrow> 0 | r # _ \<Rightarrow> length r)"

definition seq_len :: "'a list list \<Rightarrow> nat" where
  "seq_len x = (case x of [] \<Rightarrow> 0 | r # _ \<Rightarrow> length r)"

text \<open>\<^verbatim>\<open>F.linear(x, W, b)\<close> on one vector: \<open>W x + b\<close>, with \<open>W\<close> of shape (out, in).\<close>

definition F_linear :: "vec \<Rightarrow> mat \<Rightarrow> vec option \<Rightarrow> vec" where
  "F_linear x W b =
     (let y = map (\<lambda>row. dot row x) W
      in case b of None \<Rightarrow> y | Some bb \<Rightarrow> vadd y bb)"

text \<open>
  \<^verbatim>\<open>F.layer_norm\<close> over the last dimension with the default \<^verbatim>\<open>eps = 1e-5\<close>: the biased
  variance, then scale and shift.
\<close>

definition F_layer_norm :: "vec \<Rightarrow> vec \<Rightarrow> vec \<Rightarrow> vec" where
  "F_layer_norm x w b =
     (let n = real (length x);
          mean = sum_list x / n;
          var = sum_list (map (\<lambda>v. (v - mean)\<^sup>2) x) / n
      in vadd (map2 (*) (map (\<lambda>v. (v - mean) / sqrt (var + 1 / 100000)) x) w) b)"

text \<open>
  \<^verbatim>\<open>nn.GELU(approximate='none')\<close>: \<open>x \<Phi>(x)\<close> with the standard normal distribution
  function, \<open>\<Phi>(x) = (1 + erf (x / sqrt 2)) / 2\<close>; the error function is given by its power
  series.
\<close>

definition erf :: "real \<Rightarrow> real" where
  "erf x = 2 / sqrt pi * (\<Sum>n. (- 1) ^ n * x ^ (2 * n + 1) / (fact n * real (2 * n + 1)))"

definition F_gelu :: "real \<Rightarrow> real" where
  "F_gelu x = x * ((1 + erf (x / sqrt 2)) / 2)"

text \<open>\<^verbatim>\<open>F.embedding\<close>: row lookup; an index outside the table raises IndexError.\<close>

definition F_embedding :: "int list \<Rightarrow> mat \<Rightarrow> error + mat" where
  "F_embedding ids W =
     sequence_e (map (\<lambda>i. if 0 \<le> i \<and> i < int (length W) then Inr (W ! nat i)
                           else Inl (IndexError ''index out of range in self'')) ids)"

text \<open>
  Scaled dot-product attention of one head over one sequence. Position \<open>i\<close> takes the
  softmax over the positions \<open>j\<close> it is allowed to see of
  \<open>q\<^sub>i \<sqdot> k\<^sub>j / sqrt(head_dim) + add i j\<close> and returns the weighted sum of the
  \<open>v\<^sub>j\<close>. A position that is excluded takes no part in the softmax; an additive term
  only shifts the score.
\<close>

definition attention_head ::
  "(nat \<Rightarrow> nat \<Rightarrow> bool) \<Rightarrow> (nat \<Rightarrow> nat \<Rightarrow> real) \<Rightarrow> nat \<Rightarrow> vec list \<Rightarrow> vec list \<Rightarrow> vec list \<Rightarrow> vec list" where
  "attention_head allowed add head_dim q k v =
     map (\<lambda>i.
            let js = filter (allowed i) [0..<length k];
                es = map (\<lambda>j. exp (dot (q ! i) (k ! j) / sqrt (real head_dim) + add i j)) js;
                Z = sum_list es
            in foldr vadd (map2 (\<lambda>e j. vscale (e / Z) (v ! j)) es js) (replicate head_dim 0))
         [0..<length q]"

definition head_slice :: "nat \<Rightarrow> nat \<Rightarrow> vec \<Rightarrow> vec" where
  "head_slice head_dim h x = take head_dim (drop (h * head_dim) x)"

text \<open>
  The heads of a packed projection: \<open>qkv\<close> holds, for each position, the query, key and
  value of width \<open>E\<close> one after the other; head \<open>h\<close> owns the columns
  \<open>[h * head_dim, (h + 1) * head_dim)\<close> of each; the heads' outputs are concatenated.
\<close>

definition multi_head ::
  "(nat \<Rightarrow> nat \<Rightarrow> bool) \<Rightarrow> (nat \<Rightarrow> nat \<Rightarrow> real) \<Rightarrow> nat \<Rightarrow> nat \<Rightarrow> vec list \<Rightarrow> vec list" where
  "multi_head allowed add E num_heads qkv =
     (let head_dim = E div num_heads;
          q = map (take E) qkv;
          k = map (\<lambda>r. take E (drop E r)) qkv;
          v = map (\<lambda>r. take E (drop (2 * E) r)) qkv;
          heads = map (\<lambda>h. attention_head allowed add head_dim
                               (map (head_slice head_dim h) q)
                               (map (head_slice head_dim h) k)
                               (map (head_slice head_dim h) v)) [0..<num_heads]
      in map (\<lambda>i. concat (map (\<lambda>hd_out. hd_out ! i) heads)) [0..<length qkv])"

text \<open>
  \<^verbatim>\<open>nn.MultiheadAttention.forward(x, x, x, attn_mask=mask, need_weights=False)\<close> with
  \<^verbatim>\<open>batch_first=True\<close>, as documented by the library: a two-dimensional mask must have
  the shape (target length, source length), otherwise a RuntimeError is raised; a mask of
  floating-point type is added to the attention scores (a boolean mask would exclude the
  positions where it is true). Without \<^verbatim>\<open>key_padding_mask\<close> every key takes part.
  The second component of the result, the attention weights, is \<^verbatim>\<open>None\<close>.
\<close>

definition F_multi_head_attention_forward ::
  "mat list \<Rightarrow> nat \<Rightarrow> nat \<Rightarrow> mat \<Rightarrow> vec \<Rightarrow> mat \<Rightarrow> vec option \<Rightarrow> mat \<Rightarrow> error + mat list" where
  "F_multi_head_attention_forward x embed_dim num_heads in_proj_weight in_proj_bias out_w out_b
       attn_mask =
     (let tgt_len = seq_len x
      in if mat_shape attn_mask \<noteq> (tgt_len, tgt_len)
         then Inl (RuntimeError (''The shape of the 2D attn_mask is torch.Size([''
                @ str_nat (fst (mat_shape attn_mask)) @ '', '' @ str_nat (snd (mat_shape attn_mask))
                @ '']), but should be ('' @ str_nat tgt_len @ '', '' @ str_nat tgt_len @ '').''))
         else Inr (map (\<lambda>xb.
                 let qkv = map (\<lambda>r. F_linear r in_proj_weight (Some in_proj_bias)) xb;
                     ctx = multi_head (\<lambda>i j. True) (\<lambda>i j. (attn_mask ! i) ! j) embed_dim num_heads qkv
                 in map (\<lambda>r. F_linear r out_w out_b) ctx) x))"

text \<open>
  \<^verbatim>\<open>FlashMHA.forward(x, key_padding_mask, need_weights=False)\<close> of the external
  \<^verbatim>\<open>flash_attn\<close> package, as that package documents it: the padded positions (mask
  false) are removed before the kernel runs and filled with zeros afterwards, so a position
  sees the valid positions only, and with \<^verbatim>\<open>causal=True\<close> only those at or before it.
\<close>

definition flash_attention ::
  "bool \<Rightarrow> nat \<Rightarrow> nat \<Rightarrow> bool list \<Rightarrow> vec list \<Rightarrow> vec list" where
  "flash_attention causal E num_heads valid qkv =
     (let ctx = multi_head (\<lambda>i j. valid ! j \<and> (if causal then j \<le> i else True)) (\<lambda>i j. 0) E num_heads qkv
      in map (\<lambda>i. if valid ! i then ctx ! i else replicate E 0) [0..<length qkv])"


section \<open>Forward passes\<close>

text \<open>
  \<^verbatim>\<open>self.child\<close> looks a child up by name. A call \<^verbatim>\<open>module(x)\<close> runs the forward
  method of the module's class; each forward function below is that method for its class
  and reports a module of another class as a TypeError.
\<close>

definition getattr_m :: "('m, 'v) module \<Rightarrow> string \<Rightarrow> error + ('m, 'v) module" where
  "getattr_m m n =
     (case map_of (children m) n of None \<Rightarrow> Inl (AttributeError n) | Some c \<Rightarrow> Inr c)"

definition Linear_forward :: "nmodule \<Rightarrow> mat list \<Rightarrow> error + mat list" where
  "Linear_forward m x =
     (case cls_of m of
        Linear W b r \<Rightarrow> Inr (map (map (\<lambda>v. F_linear v W b)) x)
      | _ \<Rightarrow> Inl (TypeError ''Linear''))"

definition LayerNorm_forward :: "nmodule \<Rightarrow> mat list \<Rightarrow> error + mat list" where
  "LayerNorm_forward m x =
     (case cls_of m of
        LayerNorm w b \<Rightarrow> Inr (map (map (\<lambda>v. F_layer_norm v w b)) x)
      | _ \<Rightarrow> Inl (TypeError ''LayerNorm''))"

definition Dropout_forward :: "nmodule \<Rightarrow> mat list \<Rightarrow> error + mat list" where
  "Dropout_forward m x =
     (case cls_of m of
        Dropout p \<Rightarrow> Inr x
      | _ \<Rightarrow> Inl (TypeError ''Dropout''))"

definition GELU_forward :: "nmodule \<Rightarrow> mat list \<Rightarrow> error + mat list" where
  "GELU_forward m x =
     (case cls_of m of
        GELU \<Rightarrow> Inr (map (map (map F_gelu)) x)
      | _ \<Rightarrow> Inl (TypeError ''GELU''))"

definition Embedding_forward :: "nmodule \<Rightarrow> int list list \<Rightarrow> error + mat list" where
  "Embedding_forward m ids =
     (case cls_of m of
        Embedding W \<Rightarrow> sequence_e (map (\<lambda>row. F_embedding row W) ids)
      | _ \<Rightarrow> Inl (TypeError ''Embedding''))"

definition MultiheadAttention_forward ::
  "nmodule \<Rightarrow> mat list \<Rightarrow> mat \<Rightarrow> error + mat list \<times> mat list option" where
  "MultiheadAttention_forward m x attn_mask =
     (case cls_of m of
        MultiheadAttention in_proj_weight in_proj_bias embed_dim num_heads \<Rightarrow>
          bind_e (getattr_m m ''out_proj'')
            (\<lambda>out_proj. case cls_of out_proj of
               Linear W b r \<Rightarrow>
                 bind_e (F_multi_head_attention_forward x embed_dim num_heads in_proj_weight
                           in_proj_bias W b attn_mask)
                   (\<lambda>y. Inr (y, None))
             | _ \<Rightarrow> Inl (TypeError ''Linear''))
      | _ \<Rightarrow> Inl (TypeError ''MultiheadAttention''))"

definition FlashMHA_forward ::
  "nmodule \<Rightarrow> mat list \<Rightarrow> bool list list option \<Rightarrow> error + mat list \<times> mat list option" where
  "FlashMHA_forward m x key_padding_mask =
     (case cls_of m of
        FlashMHA embed_dim num_heads causal \<Rightarrow>
          bind_e (getattr_m m ''Wqkv'')
            (\<lambda>Wqkv. bind_e (Linear_forward Wqkv x)
            (\<lambda>qkv. bind_e (getattr_m m ''out_proj'')
            (\<lambda>out_proj.
               let valid = (case key_padding_mask of
                              None \<Rightarrow> map (\<lambda>r. replicate (length r) True) qkv
                            | Some k \<Rightarrow> k);
                   ctx = map2 (\<lambda>r ok. flash_attention causal embed_dim num_heads ok r) qkv valid
               in bind_e (Linear_forward out_proj ctx) (\<lambda>y. Inr (y, None)))))
      | _ \<Rightarrow> Inl (TypeError ''FlashMHA''))"

subsection \<open>gpt\_old.py\<close>

definition TorchCausalAttention_forward ::
  "nmodule \<Rightarrow> mat list \<Rightarrow> bool list list option \<Rightarrow> error + mat list \<times> mat list option" where
  "TorchCausalAttention_forward m x key_padding_mask =
     (case cls_of m of
        TorchCausalAttention self_mask \<Rightarrow>
          bind_e (getattr_m m ''mha'') (\<lambda>mha. MultiheadAttention_forward mha x self_mask)
      | _ \<Rightarrow> Inl (TypeError ''TorchCausalAttention''))"

definition FlashCausalAttention_forward ::
  "nmodule \<Rightarrow> mat list \<Rightarrow> bool list list option \<Rightarrow> error + mat list \<times> mat list option" where
  "FlashCausalAttention_forward m x key_padding_mask =
     (case cls_of m of
        FlashCausalAttention \<Rightarrow>
          bind_e (getattr_m m ''mha'') (\<lambda>mha. FlashMHA_forward mha x key_padding_mask)
      | _ \<Rightarrow> Inl (TypeError ''FlashCausalAttention''))"

definition GPTMLP_forward :: "nmodule \<Rightarrow> mat list \<Rightarrow> error + mat list" where
  "GPTMLP_forward m x =
     (case cls_of m of
        GPTMLP \<Rightarrow>
          bind_e (getattr_m m ''mlp_up'') (\<lambda>mlp_up. bind_e (Linear_forward mlp_up x)
            (\<lambda>u. bind_e (getattr_m m ''mlp_act'') (\<lambda>mlp_act. bind_e (GELU_forward mlp_act u)
            (\<lambda>g. bind_e (getattr_m m ''mlp_down'') (\<lambda>mlp_down. Linear_forward mlp_down g)))))
      | _ \<Rightarrow> Inl (TypeError ''GPTMLP''))"

text \<open>
  \<^verbatim>\<open>self.causal_attn(a, key_padding_mask)\<close>: the class of the child decides which
  forward runs.
\<close>

definition causal_attn_call ::
  "nmodule \<Rightarrow> mat list \<Rightarrow> bool list list option \<Rightarrow> error + mat list \<times> mat list option" where
  "causal_attn_call m x key_padding_mask =
     (case cls_of m of
        TorchCausalAttention self_mask \<Rightarrow> TorchCausalAttention_forward m x key_padding_mask
      | FlashCausalAttention \<Rightarrow> FlashCausalAttention_forward m x key_padding_mask
      | _ \<Rightarrow> Inl (TypeError ''causal_attn''))"

definition GPTBlock_forward ::
  "nmodule \<Rightarrow> mat list \<Rightarrow> bool list list option \<Rightarrow> error + mat list" where
  "GPTBlock_forward m x key_padding_mask =
     (case cls_of m of
        GPTBlock \<Rightarrow>
          bind_e (getattr_m m ''ln_1'') (\<lambda>ln_1. bind_e (LayerNorm_forward ln_1 x)
            (\<lambda>a. bind_e (getattr_m m ''causal_attn'')
            (\<lambda>causal_attn. bind_e (causal_attn_call causal_attn a key_padding_mask)
            (\<lambda>(b, _). bind_e (getattr_m m ''resid_attn_dropout'')
            (\<lambda>resid_attn_dropout. bind_e (Dropout_forward resid_attn_dropout b)
            (\<lambda>db. let x1 = tadd x db in
               bind_e (getattr_m m ''ln_2'') (\<lambda>ln_2. bind_e (LayerNorm_forward ln_2 x1)
            (\<lambda>m2. bind_e (getattr_m m ''mlp'') (\<lambda>mlp. bind_e (GPTMLP_forward mlp m2)
            (\<lambda>n. bind_e (getattr_m m ''resid_mlp_dropout'')
            (\<lambda>resid_mlp_dropout. bind_e (Dropout_forward resid_mlp_dropout n)
            (\<lambda>dn. Inr (tadd x1 dn)))))))))))))
      | _ \<Rightarrow> Inl (TypeError ''GPTBlock''))"

text \<open>\<^verbatim>\<open>for block in blocks: x = block(x, key_padding_mask)\<close>.\<close>

fun run_blocks :: "(nmodule \<Rightarrow> mat list \<Rightarrow> error + mat list) \<Rightarrow> nmodule list \<Rightarrow> mat list
    \<Rightarrow> error + mat list" where
  "run_blocks f [] x = Inr x"
| "run_blocks f (b # bs) x = bind_e (f b x) (run_blocks f bs)"

definition GPT_forward ::
  "nmodule \<Rightarrow> tensor2 \<Rightarrow> bool list list option \<Rightarrow> error + mat list" where
  "GPT_forward m input_ids key_padding_mask =
     (case cls_of m of
        GPT c \<Rightarrow>
          (let S = size1 input_ids in
           if \<not> S \<le> max_seq_len c
           then Inl (AssertionError (''Cannot forward input with seq_len='' @ str_nat S
                  @ '', this model only supports seq_len<='' @ str_nat (max_seq_len c)))
           else
             (let pos = [map int [0..<S]] in
              bind_e (getattr_m m ''transformer'') (\<lambda>transformer.
              bind_e (getattr_m transformer ''wte'') (\<lambda>wte.
              bind_e (Embedding_forward wte (rows2 input_ids)) (\<lambda>tok_emb.
              bind_e (getattr_m transformer ''wpe'') (\<lambda>wpe.
              bind_e (Embedding_forward wpe pos) (\<lambda>pos_emb.
              bind_e (getattr_m transformer ''emb_drop'') (\<lambda>emb_drop.
              bind_e (Dropout_forward emb_drop (map (\<lambda>xb. map2 vadd xb (hd pos_emb)) tok_emb)) (\<lambda>x.
              bind_e (getattr_m transformer ''blocks'') (\<lambda>blocks.
              bind_e (run_blocks (\<lambda>block y. GPTBlock_forward block y key_padding_mask)
                        (map snd (children blocks)) x) (\<lambda>x.
              bind_e (getattr_m transformer ''ln_f'') (\<lambda>ln_f.
              bind_e (LayerNorm_forward ln_f x) (\<lambda>x.
              bind_e (getattr_m m ''lm_head'') (\<lambda>lm_head.
              Linear_forward lm_head x))))))))))))))
      | _ \<Rightarrow> Inl (TypeError ''GPT''))"

subsection \<open>mosaic\_bert.py\<close>

definition FlashNonCausalAttention_forward ::
  "nmodule \<Rightarrow> mat list \<Rightarrow> bool list list option \<Rightarrow> error + mat list \<times> mat list option" where
  "FlashNonCausalAttention_forward m x key_padding_mask =
     (case cls_of m of
        FlashNonCausalAttention \<Rightarrow>
          bind_e (getattr_m m ''mha'') (\<lambda>mha. FlashMHA_forward mha x key_padding_mask)
      | _ \<Rightarrow> Inl (TypeError ''FlashNonCausalAttention''))"

definition BERTMLP_forward :: "nmodule \<Rightarrow> mat list \<Rightarrow> error + mat list" where
  "BERTMLP_forward m x =
     (case cls_of m of
        BERTMLP \<Rightarrow>
          bind_e (getattr_m m ''mlp_up'') (\<lambda>mlp_up. bind_e (Linear_forward mlp_up x)
            (\<lambda>u. bind_e (getattr_m m ''mlp_act'') (\<lambda>mlp_act. bind_e (GELU_forward mlp_act u)
            (\<lambda>g. bind_e (getattr_m m ''mlp_down'') (\<lambda>mlp_down. Linear_forward mlp_down g)))))
      | _ \<Rightarrow> Inl (TypeError ''BERTMLP''))"

definition BERTBlock_forward ::
  "nmodule \<Rightarrow> mat list \<Rightarrow> bool list list option \<Rightarrow> error + mat list" where
  "BERTBlock_forward m x key_padding_mask =
     (case cls_of m of
        BERTBlock \<Rightarrow>
          bind_e (getattr_m m ''ln_1'') (\<lambda>ln_1. bind_e (LayerNorm_forward ln_1 x)
            (\<lambda>a. bind_e (getattr_m m ''causal_attn'')
            (\<lambda>causal_attn. bind_e (FlashNonCausalAttention_forward causal_attn a key_padding_mask)
            (\<lambda>(b, _). bind_e (getattr_m m ''resid_attn_dropout'')
            (\<lambda>resid_attn_dropout. bind_e (Dropout_forward resid_attn_dropout b)
            (\<lambda>db. let x1 = tadd x db in
               bind_e (getattr_m m ''ln_2'') (\<lambda>ln_2. bind_e (LayerNorm_forward ln_2 x1)
            (\<lambda>m2. bind_e (getattr_m m ''mlp'') (\<lambda>mlp. bind_e (BERTMLP_forward mlp m2)
            (\<lambda>n. bind_e (getattr_m m ''resid_mlp_dropout'')
            (\<lambda>resid_mlp_dropout. bind_e (Dropout_forward resid_mlp_dropout n)
            (\<lambda>dn. Inr (tadd x1 dn)))))))))))))
      | _ \<Rightarrow> Inl (TypeError ''BERTBlock''))"

definition MosaicBert_forward ::
  "nmodule \<Rightarrow> tensor2 \<Rightarrow> bool list list option \<Rightarrow> error + mat list" where
  "MosaicBert_forward m input_ids key_padding_mask =
     (case cls_of m of
        MosaicBert c \<Rightarrow>
          (let S = size1 input_ids in
           if \<not> S \<le> max_seq_len c
           then Inl (AssertionError (''Cannot forward input with seq_len='' @ str_nat S
                  @ '', this model only supports seq_len<='' @ str_nat (max_seq_len c)))
           else
             (let pos = [map int [0..<S]] in
              bind_e (getattr_m m ''transformer'') (\<lambda>transformer.
              bind_e (getattr_m transformer ''wte'') (\<lambda>wte.
              bind_e (Embedding_forward wte (rows2 input_ids)) (\<lambda>tok_emb.
              bind_e (getattr_m transformer ''wpe'') (\<lambda>wpe.
              bind_e (Embedding_forward wpe pos) (\<lambda>pos_emb.
              bind_e (getattr_m transformer ''emb_drop'') (\<lambda>emb_drop.
              bind_e (Dropout_forward emb_drop (map (\<lambda>xb. map2 vadd xb (hd pos_emb)) tok_emb)) (\<lambda>x.
              bind_e (getattr_m transformer ''blocks'') (\<lambda>blocks.
              bind_e (run_blocks (\<lambda>block y. BERTBlock_forward block y key_padding_mask)
                        (map snd (children blocks)) x) (\<lambda>x.
              bind_e (getattr_m transformer ''ln_f'') (\<lambda>ln_f.
              bind_e (LayerNorm_forward ln_f x) (\<lambda>x.
              bind_e (getattr_m m ''lm_head'') (\<lambda>lm_head.
              Linear_forward lm_head x))))))))))))))
      | _ \<Rightarrow> Inl (TypeError ''MosaicBert''))"


section \<open>The trainer adapters\<close>

text \<open>
  \<^verbatim>\<open>F.cross_entropy(input, target, ignore_index)\<close> with the default mean reduction, as
  the library documents it: \<open>input\<close> has one row of class scores per position, the rows
  whose target is \<open>ignore_index\<close> are left out, every other target must be a class index,
  and the result is the mean over the rows kept of \<open>- log softmax(row)[target]\<close>. When no
  row is kept the mean is 0 / 0, a NaN.
\<close>

datatype loss_value = Loss real | NaN

definition nll :: "vec \<Rightarrow> int \<Rightarrow> real" where
  "nll x t = ln (sum_list (map exp x)) - x ! nat t"

definition F_cross_entropy :: "mat \<Rightarrow> int list \<Rightarrow> int \<Rightarrow> error + loss_value" where
  "F_cross_entropy input target ignore_index =
     (if length input \<noteq> length target
      then Inl (ValueError ''Expected input batch_size to match target batch_size'')
      else
        (let kept = filter (\<lambda>p. snd p \<noteq> ignore_index) (zip input target)
         in if list_ex (\<lambda>p. snd p < 0 \<or> int (length (fst p)) \<le> snd p) kept
            then Inl (IndexError ''Target is out of bounds'')
            else if kept = [] then Inr NaN
            else Inr (Loss (sum_list (map (\<lambda>p. nll (fst p) (snd p)) kept) / real (length kept)))))"

text \<open>\<^verbatim>\<open>attention_mask.bool()\<close>: a non-zero entry is true.\<close>

definition to_bool :: "tensor2 \<Rightarrow> bool list list" where
  "to_bool t = map (map (\<lambda>v. v \<noteq> 0)) (rows2 t)"

subsection \<open>ComposerGPT (gpt.py and gpt\_old.py)\<close>

text \<open>
  The methods below have the same text in both files. \<^verbatim>\<open>self.model\<close> is the parameter
  \<open>model\<close>: in \<^verbatim>\<open>gpt_old.py\<close> it is \<open>GPT_forward\<close> of a GPT module, in \<^verbatim>\<open>gpt.py\<close> the
  forward of a model of the \<^verbatim>\<open>transformers\<close> package.
\<close>

definition ComposerGPT_get_targets :: "batch \<Rightarrow> heap \<Rightarrow> error + ref \<times> heap" where
  "ComposerGPT_get_targets batch h =
     bind_e (getitem batch ''labels'')
       (\<lambda>labels.
          let (targets, h1) = alloc h (torch_roll (store h labels) (- 1))
          in bind_e (setitem_col (store h1 targets) (- 1) (- 100))
               (\<lambda>t. Inr (targets, write_ref h1 targets t)))"

definition ComposerGPT_forward ::
  "(tensor2 \<Rightarrow> bool list list option \<Rightarrow> error + mat list) \<Rightarrow> batch \<Rightarrow> heap \<Rightarrow> error + mat list" where
  "ComposerGPT_forward model batch h =
     bind_e (getitem batch ''input_ids'')
       (\<lambda>input_ids. bind_e (getitem batch ''attention_mask'')
          (\<lambda>attention_mask. model (store h input_ids) (Some (to_bool (store h attention_mask)))))"

definition ComposerGPT_eval_forward ::
  "(tensor2 \<Rightarrow> bool list list option \<Rightarrow> error + mat list) \<Rightarrow> batch \<Rightarrow> heap \<Rightarrow> mat list option
    \<Rightarrow> error + mat list" where
  "ComposerGPT_eval_forward model batch h outputs =
     (case outputs of Some out \<Rightarrow> Inr out | None \<Rightarrow> ComposerGPT_forward model batch h)"

definition ComposerGPT_loss :: "mat list \<Rightarrow> batch \<Rightarrow> heap \<Rightarrow> error + loss_value \<times> heap" where
  "ComposerGPT_loss outputs batch h =
     bind_e (ComposerGPT_get_targets batch h)
       (\<lambda>(targets, h1).
          bind_e (F_cross_entropy (concat outputs) (data (store h1 targets)) (- 100))
            (\<lambda>v. Inr (v, h1)))"

subsection \<open>ComposerMosaicBert (mosaic\_bert.py)\<close>

definition ComposerMosaicBert_get_targets :: "batch \<Rightarrow> heap \<Rightarrow> error + ref \<times> heap" where
  "ComposerMosaicBert_get_targets batch h =
     bind_e (getitem batch ''labels'') (\<lambda>labels. Inr (labels, h))"

definition ComposerMosaicBert_forward ::
  "(tensor2 \<Rightarrow> bool list list option \<Rightarrow> error + mat list) \<Rightarrow> batch \<Rightarrow> heap \<Rightarrow> error + mat list" where
  "ComposerMosaicBert_forward model batch h =
     bind_e (getitem batch ''input_ids'')
       (\<lambda>input_ids. bind_e (getitem batch ''attention_mask'')
          (\<lambda>attention_mask. model (store h input_ids) (Some (to_bool (store h attention_mask)))))"

definition ComposerMosaicBert_eval_forward ::
  "(tensor2 \<Rightarrow> bool list list option \<Rightarrow> error + mat list) \<Rightarrow> batch \<Rightarrow> heap \<Rightarrow> mat list option
    \<Rightarrow> error + mat list" where
  "ComposerMosaicBert_eval_forward model batch h outputs =
     (case outputs of Some out \<Rightarrow> Inr out | None \<Rightarrow> ComposerMosaicBert_forward model batch h)"

definition ComposerMosaicBert_loss :: "mat list \<Rightarrow> batch \<Rightarrow> heap \<Rightarrow> error + loss_value \<times> heap" where
  "ComposerMosaicBert_loss outputs batch h =
     bind_e (ComposerMosaicBert_get_targets batch h)
       (\<lambda>(targets, h1).
          bind_e (F_cross_entropy (concat outputs) (data (store h1 targets)) (- 100))
            (\<lambda>v. Inr (v, h1)))"


section \<open>Concrete instances\<close>

text \<open>
  A smallest GPT with the \<^verbatim>\<open>torch\<close> attention: one block, one head, width 2, two tokens,
  sequences of at most two positions. Token 0 embeds to \<open>(0, 0)\<close> and token 1 to
  \<open>(1, -1)\<close>; the positional embedding is zero; queries and keys are zero, values and the
  output projection are the identity; the feed-forward sublayer is zero; the output
  projection to the vocabulary is the identity.
\<close>

definition cfg_torch :: cfg where
  "cfg_torch = \<lparr>name = ''gpt'', device = Cpu, vocab_size = 2, d_model = 2, n_heads = 1,
     n_layers = 1, max_seq_len = 2, mlp_ratio = 1, init_std = 1 / 50, emb_pdrop = 0,
     resid_pdrop = 0, attn_pdrop = 0, attn_impl = ''torch''\<rparr>"

definition attn_torch :: nmodule where
  "attn_torch =
     Module (TorchCausalAttention (torch_tril (torch_ones (max_seq_len cfg_torch) (max_seq_len cfg_torch))))
       [(''mha'', Module (MultiheadAttention [[0, 0], [0, 0], [0, 0], [0, 0], [1, 0], [0, 1]]
                            [0, 0, 0, 0, 0, 0] 2 1)
                    [(''out_proj'', Module (Linear [[1, 0], [0, 1]] (Some [0, 0]) True) [])])]"

definition block_torch :: nmodule where
  "block_torch =
     Module GPTBlock
       [(''ln_1'', Module (LayerNorm [1, 1] [0, 0]) []),
        (''causal_attn'', attn_torch),
        (''ln_2'', Module (LayerNorm [1, 1] [0, 0]) []),
        (''mlp'', Module GPTMLP
           [(''mlp_up'', Module (Linear [[0, 0], [0, 0]] (Some [0, 0]) False) []),
            (''mlp_act'', Module GELU []),
            (''mlp_down'', Module (Linear [[0, 0], [0, 0]] (Some [0, 0]) True) [])]),
        (''resid_attn_dropout'', Module (Dropout 0) []),
        (''resid_mlp_dropout'', Module (Dropout 0) [])]"

definition gpt_torch :: nmodule where
  "gpt_torch =
     Module (GPT cfg_torch)
       [(''transformer'', Module ModuleDict
           [(''wte'', Module (Embedding [[0, 0], [1, - 1]]) []),
            (''wpe'', Module (Embedding [[0, 0], [0, 0]]) []),
            (''emb_drop'', Module (Dropout 0) []),
            (''blocks'', Module ModuleList [(''0'', block_torch)]),
            (''ln_f'', Module (LayerNorm [1, 1] [0, 0]) [])]),
        (''lm_head'', Module (Linear [[1, 0], [0, 1]] None False) [])]"

text \<open>The shape of a numeric parameter, to compare a numeric model with a constructed one.\<close>

definition shape_mat :: "mat \<Rightarrow> nat list" where
  "shape_mat W = [length W, seq_len W]"

definition shape_vec :: "vec \<Rightarrow> nat list" where
  "shape_vec v = [length v]"

text \<open>A logit of a forward result, and whether the forward returned at all.\<close>

definition returned :: "error + 'a \<Rightarrow> bool" where
  "returned r = (case r of Inl e \<Rightarrow> False | Inr x \<Rightarrow> True)"

definition logit :: "error + mat list \<Rightarrow> nat \<Rightarrow> nat \<Rightarrow> nat \<Rightarrow> real" where
  "logit r b i v = (case r of Inl e \<Rightarrow> 0 | Inr l \<Rightarrow> l ! b ! i ! v)"


text \<open>A flash-attention constructor that refuses nothing.\<close>

definition flash_accepts :: "nat \<Rightarrow> nat \<Rightarrow> error option" where
  "flash_accepts embed_dim num_heads = None"

text \<open>A BERT configuration for the encoder variant.\<close>

definition cfg_bert :: cfg where
  "cfg_bert = \<lparr>name = ''mosaic_bert'', device = Cpu, vocab_size = 2, d_model = 2, n_heads = 1,
     n_layers = 1, max_seq_len = 2, mlp_ratio = 1, init_std = 1 / 50, emb_pdrop = 0,
     resid_pdrop = 0, attn_pdrop = 0, attn_impl = ''flash''\<rparr>"

text \<open>A batch whose labels are the object at reference 0 of a store holding one tensor.\<close>

definition batch_labels :: batch where
  "batch_labels = [''labels'' \<mapsto> 0]"

definition heap_with :: "tensor2 \<Rightarrow> heap" where
  "heap_with t = \<lparr>store = (\<lambda>r. t), next_ref = 1\<rparr>"

section \<open>What the claims say, as predicates\<close>

text \<open>
  The state every parameter is to be in after the initialisation pass, for a model with
  \<open>n_layers = L\<close> and \<open>init_std = \<sigma>\<close>: a residual-branch Linear weight drawn from a
  normal distribution with mean 0 and standard deviation \<open>\<sigma> / sqrt (2 L)\<close>, any other
  Linear weight and every embedding weight with standard deviation \<open>\<sigma>\<close>, a Linear bias
  zero, a LayerNorm scale one and bias zero.
\<close>

definition initialised :: "cfg \<Rightarrow> pmodule \<Rightarrow> bool" where
  "initialised c m =
     (case cls_of m of
        Linear w b r \<Rightarrow>
          pfill w = Normal 0 (if r then init_std c / sqrt (real (2 * n_layers c)) else init_std c)
          \<and> (case b of None \<Rightarrow> True | Some bb \<Rightarrow> pfill bb = Zeros)
      | Embedding w \<Rightarrow> pfill w = Normal 0 (init_std c)
      | LayerNorm w b \<Rightarrow> pfill w = Ones \<and> pfill b = Zeros
      | _ \<Rightarrow> True)"

text \<open>A construction that returned a tree all of whose modules are initialised.\<close>

definition all_initialised :: "cfg \<Rightarrow> error + pmodule \<Rightarrow> bool" where
  "all_initialised c r =
     (case r of Inl e \<Rightarrow> False | Inr m \<Rightarrow> list_all (initialised c) (modules m))"

text \<open>
  A module whose own Linear, Embedding or LayerNorm parameters have storage, and a tree all
  of whose modules do.
\<close>

definition has_storage :: "pmodule \<Rightarrow> bool" where
  "has_storage m =
     (case cls_of m of
        Linear w b r \<Rightarrow>
          pfill w \<noteq> Meta \<and> (case b of None \<Rightarrow> True | Some bb \<Rightarrow> pfill bb \<noteq> Meta)
      | Embedding w \<Rightarrow> pfill w \<noteq> Meta
      | LayerNorm w b \<Rightarrow> pfill w \<noteq> Meta \<and> pfill b \<noteq> Meta
      | _ \<Rightarrow> True)"

definition materialised :: "pmodule \<Rightarrow> bool" where
  "materialised m = list_all has_storage (modules m)"

text \<open>
  The positions a loss includes, and the mean over them of the negative log-likelihood of
  the target class.
\<close>

definition included :: "int list \<Rightarrow> nat set" where
  "included tg = {n. n < length tg \<and> tg ! n \<noteq> - 100}"

definition mean_nll :: "mat \<Rightarrow> int list \<Rightarrow> real" where
  "mean_nll xs tg = (\<Sum>n \<in> included tg. nll (xs ! n) (tg ! n)) / real (card (included tg))"

section \<open>Properties\<close>

subsection \<open>Construction and initialisation\<close>

lemma sequence_e_Inr:
  "sequence_e rs = Inr xs \<Longrightarrow> rs = map Inr xs"
  by (induction rs arbitrary: xs) (auto split: sum.splits)

lemma sequence_e_map_Inr: "sequence_e (map Inr xs) = Inr xs"
  by (induction xs) auto


lemma param_init_fn_initialised:
  "has_storage x \<Longrightarrow> param_init_fn c x = Inr y \<Longrightarrow> initialised c y"
  by (cases x; cases "cls_of x")
     (auto simp: param_init_fn_def init_Linear_def init_Embedding_def init_LayerNorm_def
        bind_e_def py_div_def initialised_def has_storage_def init_normal_def init_zeros_def
        init_ones_def Let_def split: if_splits option.splits)

lemma param_init_fn_children:
  "param_init_fn c x = Inr y \<Longrightarrow> children y = children x"
  by (cases x; cases "cls_of x")
     (auto simp: param_init_fn_def init_Linear_def init_Embedding_def init_LayerNorm_def
        bind_e_def py_div_def Let_def split: if_splits option.splits)


lemma has_storage_children:
  "has_storage (Module c ch) = has_storage (Module c ch')"
  by (simp add: has_storage_def)

lemma apply_fn_all:
  "\<forall>x y. Q x \<longrightarrow> fn x = Inr y \<longrightarrow> P y \<Longrightarrow>
   \<forall>x y. fn x = Inr y \<longrightarrow> children y = children x \<Longrightarrow>
   \<forall>c ch ch'. Q (Module c ch) \<longrightarrow> Q (Module c ch') \<Longrightarrow>
   list_all Q (modules m) \<Longrightarrow>
   apply_fn fn m = Inr m' \<Longrightarrow> list_all P (modules m')"
proof (induction fn m arbitrary: m' rule: apply_fn.induct)
  case (1 fn c ch)
  let ?g = "\<lambda>p. case apply_fn fn (snd p) of Inl e \<Rightarrow> Inl e | Inr m \<Rightarrow> Inr (fst p, m)"
  from "1.prems"(5) obtain ch' where
    seq: "sequence_e (map ?g ch) = Inr ch'"
    and top: "fn (Module c ch') = Inr m'"
    by (auto split: sum.splits)
  have eq: "map ?g ch = map Inr ch'"
    using seq by (rule sequence_e_Inr)
  have kids: "list_all P (modules (snd q))" if q: "q \<in> set ch'" for q
  proof -
    from q eq have "Inr q \<in> set (map ?g ch)" by simp
    then obtain p where p: "p \<in> set ch" and gp: "?g p = Inr q" by auto
    then have ap: "apply_fn fn (snd p) = Inr (snd q)"
      by (auto split: sum.splits)
    have qp: "list_all Q (modules (snd p))"
      using "1.prems"(4) p by (auto simp: list_all_iff)
    show ?thesis
      by (rule "1.IH" [OF p "1.prems"(1) "1.prems"(2) "1.prems"(3) qp ap])
  qed
  have "Q (Module c ch)" using "1.prems"(4) by simp
  then have "Q (Module c ch')" using "1.prems"(3) by blast
  with "1.prems"(1) top have Pm: "P m'" by blast
  from "1.prems"(2) top have ch: "children m' = ch'" by auto
  obtain c' where m': "m' = Module c' ch'" using ch by (cases m') simp
  show ?case
    using Pm kids unfolding m' by (auto simp: list_all_iff)
qed

lemma apply_param_init_fn_initialised:
  "materialised m \<Longrightarrow> apply_fn (param_init_fn c) m = Inr m' \<Longrightarrow>
   list_all (initialised c) (modules m')"
  unfolding materialised_def
proof (rule apply_fn_all [where fn = "param_init_fn c" and Q = has_storage])
  show "\<forall>x y. has_storage x \<longrightarrow> param_init_fn c x = Inr y \<longrightarrow> initialised c y"
    using param_init_fn_initialised by blast
  show "\<forall>x y. param_init_fn c x = Inr y \<longrightarrow> children y = children x"
    using param_init_fn_children by blast
  show "\<forall>c ch ch'. has_storage (Module c ch) \<longrightarrow> has_storage (Module c ch')"
    using has_storage_children by blast
qed



lemma param_init_fn_total:
  "n_layers c \<noteq> 0 \<Longrightarrow> \<exists>y. param_init_fn c x = Inr y"
  by (cases x; cases "cls_of x")
     (auto simp: param_init_fn_def init_Linear_def bind_e_def py_div_def Let_def)

lemma map_all_Inr:
  "(\<And>p. p \<in> set xs \<Longrightarrow> \<exists>q. g p = Inr q) \<Longrightarrow> \<exists>qs. map g xs = map Inr qs"
proof (induction xs)
  case Nil
  then show ?case by simp
next
  case (Cons a xs)
  from Cons.prems [of a] obtain q where q: "g a = Inr q" by auto
  from Cons.IH Cons.prems obtain qs where qs: "map g xs = map Inr qs" by auto
  from q qs have "map g (a # xs) = map Inr (q # qs)" by simp
  then show ?case by blast
qed

lemma apply_fn_total:
  "(\<And>x. \<exists>y. fn x = Inr y) \<Longrightarrow> \<exists>m'. apply_fn fn m = Inr m'"
proof (induction fn m rule: apply_fn.induct)
  case (1 fn c ch)
  let ?g = "\<lambda>p. case apply_fn fn (snd p) of Inl e \<Rightarrow> Inl e | Inr m \<Rightarrow> Inr (fst p, m)"
  have "\<exists>q. ?g p = Inr q" if "p \<in> set ch" for p
    using "1.IH" [OF that] "1.prems" by (auto split: sum.splits)
  then have "\<exists>qs. map ?g ch = map Inr qs"
    by (rule map_all_Inr)
  then obtain qs where "sequence_e (map ?g ch) = Inr qs"
    by (auto simp: sequence_e_map_Inr)
  then show ?case using "1.prems" by (auto split: sum.splits)
qed





lemma nn_ModuleList_Nil: "nn_ModuleList [] = Module ModuleList []"
  by (simp add: nn_ModuleList_def)

lemmas block_init_defs =
  TorchCausalAttention_init_def FlashCausalAttention_init_def FlashNonCausalAttention_init_def
  nn_MultiheadAttention_def FlashMHA_init_def nn_Dropout_def bind_e_def Let_def






lemma materialised_ModuleList:
  "(\<And>b. b \<in> set bs \<Longrightarrow> materialised b) \<Longrightarrow> materialised (nn_ModuleList bs)"
proof -
  assume a: "\<And>b. b \<in> set bs \<Longrightarrow> materialised b"
  have top: "has_storage (Module ModuleList ch)" for ch :: "(string \<times> pmodule) list"
    by (simp add: has_storage_def)
  have "has_storage x" if "y < length bs" "x \<in> set (modules (bs ! y))" for x y
    using a [of "bs ! y"] that by (auto simp: materialised_def list_all_iff)
  then show ?thesis
    using top by (auto simp: materialised_def nn_ModuleList_def list_all_iff)
qed

lemma const_blocks:
  assumes "sequence_e (map (\<lambda>_. r) [0..<n]) = Inr blocks" "b \<in> set blocks"
  shows "r = Inr b"
proof -
  from assms(1) have "map (\<lambda>_. r) [0..<n] = map Inr blocks" by (rule sequence_e_Inr)
  then have "Inr b \<in> set (map (\<lambda>_. r) [0..<n])" using assms(2) by simp
  then show ?thesis by auto
qed

lemma GPTBlock_init_materialised:
  "dev \<noteq> MetaDevice \<Longrightarrow> GPTBlock_init ok c dev = Inr b \<Longrightarrow> materialised b"
  by (auto simp: GPTBlock_init_def block_init_defs materialised_def has_storage_def
      nn_Linear_def nn_LayerNorm_def GPTMLP_init_def nn_GELU_def new_param_def
      split: if_splits option.splits)

lemma BERTBlock_init_materialised:
  "dev \<noteq> MetaDevice \<Longrightarrow> BERTBlock_init hf ok c dev = Inr b \<Longrightarrow> materialised b"
  by (auto simp: BERTBlock_init_def block_init_defs materialised_def has_storage_def
      nn_Linear_def nn_LayerNorm_def BERTMLP_init_def nn_GELU_def new_param_def
      split: if_splits option.splits)

lemma stack_materialised:
  assumes "dev \<noteq> MetaDevice" "materialised blocks" "has_storage (Module tc [])"
  shows "materialised (Module tc
           [(''transformer'', Module ModuleDict
               [(''wte'', nn_Embedding v d dev),
                (''wpe'', nn_Embedding s d dev),
                (''emb_drop'', Module (Dropout p) []),
                (''blocks'', blocks),
                (''ln_f'', nn_LayerNorm d dev)]),
            (''lm_head'', nn_Linear d v False dev)])"
  using assms
  by (simp add: materialised_def has_storage_def nn_Embedding_def nn_LayerNorm_def nn_Linear_def
      new_param_def)

lemma GPT_init_parts:
  assumes "GPT_init ok c dev = r"
  shows "(emb_pdrop c < 0 \<or> 1 < emb_pdrop c)
           \<and> r = Inl (ValueError ''dropout probability has to be between 0 and 1'')
       \<or> (\<exists>e. sequence_e (map (\<lambda>_. GPTBlock_init ok c dev) [0..<n_layers c]) = Inl e \<and> r = Inl e
              \<and> 0 \<le> emb_pdrop c \<and> emb_pdrop c \<le> 1)
       \<or> (\<exists>blocks. sequence_e (map (\<lambda>_. GPTBlock_init ok c dev) [0..<n_layers c]) = Inr blocks
              \<and> 0 \<le> emb_pdrop c \<and> emb_pdrop c \<le> 1
              \<and> r = (let self = Module (GPT c)
                         [(''transformer'', Module ModuleDict
                             [(''wte'', nn_Embedding (vocab_size c) (d_model c) dev),
                              (''wpe'', nn_Embedding (max_seq_len c) (d_model c) dev),
                              (''emb_drop'', Module (Dropout (emb_pdrop c)) []),
                              (''blocks'', nn_ModuleList blocks),
                              (''ln_f'', nn_LayerNorm (d_model c) dev)]),
                          (''lm_head'', nn_Linear (d_model c) (vocab_size c) False dev)]
                      in if dev \<noteq> MetaDevice then apply_fn (param_init_fn c) self else Inr self))"
proof (cases "emb_pdrop c < 0 \<or> 1 < emb_pdrop c")
  case True
  then show ?thesis
    using assms by (simp add: GPT_init_def nn_Dropout_def bind_e_def Let_def del: apply_fn.simps)
next
  case False
  then show ?thesis
    using assms
    by (cases "sequence_e (map (\<lambda>_. GPTBlock_init ok c dev) [0..<n_layers c])")
       (simp_all add: GPT_init_def nn_Dropout_def bind_e_def Let_def del: apply_fn.simps)
qed

lemma MosaicBert_init_parts:
  assumes "MosaicBert_init hf ok c = r" "name c = ''mosaic_bert''"
  shows "(emb_pdrop c < 0 \<or> 1 < emb_pdrop c)
           \<and> r = Inl (ValueError ''dropout probability has to be between 0 and 1'')
       \<or> (\<exists>e. sequence_e (map (\<lambda>_. BERTBlock_init hf ok c (device c)) [0..<n_layers c]) = Inl e
              \<and> r = Inl e \<and> 0 \<le> emb_pdrop c \<and> emb_pdrop c \<le> 1)
       \<or> (\<exists>blocks. sequence_e (map (\<lambda>_. BERTBlock_init hf ok c (device c)) [0..<n_layers c])
                = Inr blocks
              \<and> 0 \<le> emb_pdrop c \<and> emb_pdrop c \<le> 1
              \<and> r = (let self = Module (MosaicBert c)
                         [(''transformer'', Module ModuleDict
                             [(''wte'', nn_Embedding (vocab_size c) (d_model c) (device c)),
                              (''wpe'', nn_Embedding (max_seq_len c) (d_model c) (device c)),
                              (''emb_drop'', Module (Dropout (emb_pdrop c)) []),
                              (''blocks'', nn_ModuleList blocks),
                              (''ln_f'', nn_LayerNorm (d_model c) (device c))]),
                          (''lm_head'', nn_Linear (d_model c) (vocab_size c) False (device c))]
                      in if device c \<noteq> MetaDevice then apply_fn (param_init_fn c) self
                         else Inr self))"
proof (cases "emb_pdrop c < 0 \<or> 1 < emb_pdrop c")
  case True
  then show ?thesis
    using assms
    by (simp add: MosaicBert_init_def nn_Dropout_def bind_e_def Let_def del: apply_fn.simps)
next
  case False
  then show ?thesis
    using assms
    by (cases "sequence_e (map (\<lambda>_. BERTBlock_init hf ok c (device c)) [0..<n_layers c])")
       (simp_all add: MosaicBert_init_def nn_Dropout_def bind_e_def Let_def del: apply_fn.simps)
qed

lemma GPT_init_initialised:
  assumes dev: "dev \<noteq> MetaDevice" and g: "GPT_init ok c dev = Inr g"
  shows "list_all (initialised c) (modules g)"
proof -
  from GPT_init_parts [OF g] dev obtain blocks where
    seq: "sequence_e (map (\<lambda>_. GPTBlock_init ok c dev) [0..<n_layers c]) = Inr blocks"
    and ap: "apply_fn (param_init_fn c) (Module (GPT c)
                         [(''transformer'', Module ModuleDict
                             [(''wte'', nn_Embedding (vocab_size c) (d_model c) dev),
                              (''wpe'', nn_Embedding (max_seq_len c) (d_model c) dev),
                              (''emb_drop'', Module (Dropout (emb_pdrop c)) []),
                              (''blocks'', nn_ModuleList blocks),
                              (''ln_f'', nn_LayerNorm (d_model c) dev)]),
                          (''lm_head'', nn_Linear (d_model c) (vocab_size c) False dev)]) = Inr g"
    by (auto simp: Let_def simp del: apply_fn.simps)
  have "materialised b" if "b \<in> set blocks" for b
    using const_blocks [OF seq that] dev by (rule_tac GPTBlock_init_materialised) auto
  then have "materialised (nn_ModuleList blocks)" by (rule materialised_ModuleList)
  then have "materialised (Module (GPT c)
                         [(''transformer'', Module ModuleDict
                             [(''wte'', nn_Embedding (vocab_size c) (d_model c) dev),
                              (''wpe'', nn_Embedding (max_seq_len c) (d_model c) dev),
                              (''emb_drop'', Module (Dropout (emb_pdrop c)) []),
                              (''blocks'', nn_ModuleList blocks),
                              (''ln_f'', nn_LayerNorm (d_model c) dev)]),
                          (''lm_head'', nn_Linear (d_model c) (vocab_size c) False dev)])"
    using dev by (intro stack_materialised) (simp_all add: has_storage_def)
  then show ?thesis using ap by (rule apply_param_init_fn_initialised)
qed

lemma MosaicBert_init_initialised:
  assumes dev: "device c \<noteq> MetaDevice" and g: "MosaicBert_init hf ok c = Inr g"
  shows "list_all (initialised c) (modules g)"
proof -
  have nm: "name c = ''mosaic_bert''"
    using g by (auto simp: MosaicBert_init_def split: if_splits)
  from MosaicBert_init_parts [OF g nm] dev obtain blocks where
    seq: "sequence_e (map (\<lambda>_. BERTBlock_init hf ok c (device c)) [0..<n_layers c]) = Inr blocks"
    and ap: "apply_fn (param_init_fn c) (Module (MosaicBert c)
                         [(''transformer'', Module ModuleDict
                             [(''wte'', nn_Embedding (vocab_size c) (d_model c) (device c)),
                              (''wpe'', nn_Embedding (max_seq_len c) (d_model c) (device c)),
                              (''emb_drop'', Module (Dropout (emb_pdrop c)) []),
                              (''blocks'', nn_ModuleList blocks),
                              (''ln_f'', nn_LayerNorm (d_model c) (device c))]),
                          (''lm_head'', nn_Linear (d_model c) (vocab_size c) False (device c))])
             = Inr g"
    by (auto simp: Let_def simp del: apply_fn.simps)
  have "materialised b" if "b \<in> set blocks" for b
    using const_blocks [OF seq that] dev by (rule_tac BERTBlock_init_materialised) auto
  then have "materialised (nn_ModuleList blocks)" by (rule materialised_ModuleList)
  then have "materialised (Module (MosaicBert c)
                         [(''transformer'', Module ModuleDict
                             [(''wte'', nn_Embedding (vocab_size c) (d_model c) (device c)),
                              (''wpe'', nn_Embedding (max_seq_len c) (d_model c) (device c)),
                              (''emb_drop'', Module (Dropout (emb_pdrop c)) []),
                              (''blocks'', nn_ModuleList blocks),
                              (''ln_f'', nn_LayerNorm (d_model c) (device c))]),
                          (''lm_head'', nn_Linear (d_model c) (vocab_size c) False (device c))])"
    using dev by (intro stack_materialised) (simp_all add: has_storage_def)
  then show ?thesis using ap by (rule apply_param_init_fn_initialised)
qed


subsection \<open>Shifted targets\<close>

lemma foldl_update_length:
  "length (foldl (\<lambda>d b. d[f b := v]) d bs) = length d"
  by (induction bs arbitrary: d) auto

lemma foldl_update_nth:
  "k < length d \<Longrightarrow>
   foldl (\<lambda>d b. d[f b := v]) d bs ! k = (if k \<in> f ` set bs then v else d ! k)"
proof (induction bs arbitrary: d)
  case Nil
  then show ?case by simp
next
  case (Cons b bs)
  then show ?case by (auto simp: nth_list_update)
qed

lemma roll_nth:
  assumes "Suc k < length xs"
  shows "rotate (nat (1 mod int (length xs))) xs ! k = xs ! Suc k"
proof -
  have "1 < length xs" using assms by simp
  then have "nat (1 mod int (length xs)) = 1" by simp
  then show ?thesis using assms by (simp add: nth_rotate1)
qed

lemma ComposerGPT_get_targets_eq:
  "ComposerGPT_get_targets batch h =
     (case batch ''labels'' of
        None \<Rightarrow> Inl (KeyError ''labels'')
      | Some l \<Rightarrow>
          (case setitem_col (torch_roll (store h l) (- 1)) (- 1) (- 100) of
             Inl e \<Rightarrow> Inl e
           | Inr t \<Rightarrow> Inr (next_ref h,
               \<lparr>store = (store h)(next_ref h := t), next_ref = Suc (next_ref h)\<rparr>)))"
  by (auto simp: ComposerGPT_get_targets_def getitem_def bind_e_def alloc_def write_ref_def
      split: option.splits sum.splits)

lemma setitem_last_col:
  "0 < size1 t \<Longrightarrow>
   setitem_col t (- 1) v =
     Inr (t\<lparr>data := foldl (\<lambda>d b. d[b * size1 t + (size1 t - 1) := v]) (data t) [0..<size0 t]\<rparr>)"
  by (auto simp: setitem_col_def Let_def nat_diff_distrib' intro!: arg_cong[where f="\<lambda>f. foldl f _ _"])

lemma setitem_last_col_empty:
  "size1 t = 0 \<Longrightarrow> setitem_col t (- 1) v = Inl (IndexError ''index out of bounds for dimension 1'')"
  by (simp add: setitem_col_def)


lemma torch_roll_fields [simp]:
  "size0 (torch_roll t s) = size0 t" "size1 (torch_roll t s) = size1 t"
  "length (data (torch_roll t s)) = length (data t)"
  by (simp_all add: torch_roll_def)

lemma offset_less:
  "b < B \<Longrightarrow> i < S \<Longrightarrow> b * S + i < B * (S::nat)"
proof -
  assume "b < B" "i < S"
  then have "b * S + i < b * S + S" by simp
  also have "\<dots> = Suc b * S" by simp
  also have "\<dots> \<le> B * S" using \<open>b < B\<close> by (intro mult_le_mono1) simp
  finally show ?thesis .
qed

lemma offset_inj:
  "i < S \<Longrightarrow> j < S \<Longrightarrow> b * S + i = b' * S + j \<Longrightarrow> i = (j::nat)"
proof -
  assume a: "i < S" "j < S" "b * S + i = b' * S + j"
  have "(b * S + i) mod S = i" using a(1) by simp
  moreover have "(b' * S + j) mod S = j" using a(2) by simp
  ultimately show ?thesis using a(3) by simp
qed

lemma shift_fill_nth:
  fixes d :: "int list"
  assumes len: "length d = B * S" and b: "b < B" and i: "i < S"
  shows "foldl (\<lambda>d b. d[b * S + (S - 1) := v]) (rotate (nat (1 mod int (length d))) d) [0..<B]
           ! (b * S + i)
         = (if Suc i = S then v else d ! (b * S + Suc i))"
proof -
  let ?r = "rotate (nat (1 mod int (length d))) d"
  have k: "b * S + i < length ?r" using offset_less [OF b i] len by simp
  show ?thesis
  proof (cases "Suc i = S")
    case True
    have "b * S + i = b * S + (S - 1)" using True by auto
    moreover have "b \<in> set [0..<B]" using b by simp
    ultimately have "b * S + i \<in> (\<lambda>b. b * S + (S - 1)) ` set [0..<B]"
      by (rule image_eqI)
    then have "foldl (\<lambda>d b. d[b * S + (S - 1) := v]) ?r [0..<B] ! (b * S + i) = v"
      by (simp only: foldl_update_nth [OF k] if_True)
    then show ?thesis using True by simp
  next
    case False
    then have lt: "Suc i < S" using i by simp
    have "b * S + i \<notin> (\<lambda>b. b * S + (S - 1)) ` set [0..<B]"
    proof
      assume "b * S + i \<in> (\<lambda>b. b * S + (S - 1)) ` set [0..<B]"
      then obtain b' where "b * S + i = b' * S + (S - 1)" by auto
      moreover have "S - 1 < S" using i by simp
      ultimately have "i = S - 1" using i by (rule_tac offset_inj)
      then show False using lt by simp
    qed
    then have "foldl (\<lambda>d b. d[b * S + (S - 1) := v]) ?r [0..<B] ! (b * S + i) = ?r ! (b * S + i)"
      by (simp only: foldl_update_nth [OF k] if_False)
    also have "\<dots> = d ! Suc (b * S + i)"
    proof (rule roll_nth)
      show "Suc (b * S + i) < length d" using offset_less [OF b lt] len by simp
    qed
    finally show ?thesis using False by simp
  qed
qed


lemma get_targets_value:
  assumes l: "batch ''labels'' = Some l"
    and wf: "wf_tensor2 (store h l)"
    and b: "b < size0 (store h l)" and i: "i < size1 (store h l)"
  shows "\<exists>r h'. ComposerGPT_get_targets batch h = Inr (r, h')
           \<and> size0 (store h' r) = size0 (store h l) \<and> size1 (store h' r) = size1 (store h l)
           \<and> wf_tensor2 (store h' r)
           \<and> at2 (store h' r) b i =
               (if Suc i = size1 (store h l) then - 100 else at2 (store h l) b (Suc i))"
proof -
  define t where "t = store h l"
  define S where "S = size1 t"
  define B where "B = size0 t"
  define d where "d = data t"
  have S: "0 < S" using i by (simp add: S_def t_def)
  have len: "length d = B * S" using wf by (simp add: wf_tensor2_def d_def B_def S_def t_def)
  define d' where
    "d' = foldl (\<lambda>d b. d[b * S + (S - 1) := - 100]) (rotate (nat (1 mod int (length d))) d) [0..<B]"
  have set_eq: "setitem_col (torch_roll t (- 1)) (- 1) (- 100) = Inr (t\<lparr>data := d'\<rparr>)"
    using setitem_last_col [of "torch_roll t (- 1)" "- 100"] S
    by (simp add: S_def B_def d_def d'_def torch_roll_def)
  have val: "d' ! (b * S + i) = (if Suc i = S then - 100 else d ! (b * S + Suc i))"
    unfolding d'_def using len b i by (intro shift_fill_nth) (simp_all add: B_def S_def t_def)
  have lend: "length d' = B * S"
    using len by (simp add: d'_def foldl_update_length)
  have res: "ComposerGPT_get_targets batch h =
      Inr (next_ref h, \<lparr>store = (store h)(next_ref h := t\<lparr>data := d'\<rparr>), next_ref = Suc (next_ref h)\<rparr>)"
    using l set_eq by (simp add: ComposerGPT_get_targets_eq t_def)
  show ?thesis
    unfolding res using val lend
    by (simp add: at2_def wf_tensor2_def t_def [symmetric] S_def [symmetric] B_def [symmetric] d_def [symmetric])
qed

lemma get_targets_frame:
  assumes "ComposerGPT_get_targets batch h = Inr (r, h')" and "p < next_ref h"
  shows "store h' p = store h p \<and> r \<noteq> p \<and> r = next_ref h \<and> next_ref h' = Suc (next_ref h)"
  using assms
  by (auto simp: ComposerGPT_get_targets_eq split: option.splits sum.splits)

lemma get_targets_example:
  assumes "batch ''labels'' = Some l" "store h l = \<lparr>size0 = 1, size1 = 4, data = [a, b, c, d]\<rparr>"
  shows "\<exists>r h'. ComposerGPT_get_targets batch h = Inr (r, h')
           \<and> store h' r = \<lparr>size0 = 1, size1 = 4, data = [b, c, d, - 100]\<rparr>"
  using assms
  by (simp add: ComposerGPT_get_targets_eq setitem_col_def torch_roll_def Let_def)

subsection \<open>Cross-entropy\<close>

lemma kept_cong:
  "length xs = length ts \<Longrightarrow> length ts = length xs' \<Longrightarrow>
   (\<And>n. n < length ts \<Longrightarrow> ts ! n \<noteq> ig \<Longrightarrow> xs ! n = xs' ! n) \<Longrightarrow>
   filter (\<lambda>p. snd p \<noteq> ig) (zip xs ts) = filter (\<lambda>p. snd p \<noteq> ig) (zip xs' ts)"
proof (induction xs ts xs' rule: list_induct3)
  case Nil
  then show ?case by simp
next
  case (Cons x xs t ts x' xs')
  have tl: "filter (\<lambda>p. snd p \<noteq> ig) (zip xs ts) = filter (\<lambda>p. snd p \<noteq> ig) (zip xs' ts)"
  proof (rule Cons.IH)
    fix n assume "n < length ts" "ts ! n \<noteq> ig"
    then show "xs ! n = xs' ! n" using Cons.prems [of "Suc n"] by simp
  qed
  have hd: "t \<noteq> ig \<Longrightarrow> x = x'" using Cons.prems [of 0] by simp
  show ?case using tl hd by auto
qed

lemma cross_entropy_ignores:
  assumes "length xs = length xs'"
    and "\<And>n. n < length ts \<Longrightarrow> ts ! n \<noteq> ig \<Longrightarrow> xs ! n = xs' ! n"
  shows "F_cross_entropy xs ts ig = F_cross_entropy xs' ts ig"
proof (cases "length xs = length ts")
  case True
  then have "filter (\<lambda>p. snd p \<noteq> ig) (zip xs ts) = filter (\<lambda>p. snd p \<noteq> ig) (zip xs' ts)"
    using assms by (intro kept_cong) simp_all
  then show ?thesis using True assms(1) by (simp add: F_cross_entropy_def)
next
  case False
  then show ?thesis using assms(1) by (simp add: F_cross_entropy_def)
qed

lemma sum_list_filter_zip:
  fixes f :: "'a \<times> 'b \<Rightarrow> real"
  assumes "length xs = length ts"
  shows "sum_list (map f (filter P (zip xs ts))) =
         (\<Sum>n \<in> {n. n < length ts \<and> P (xs ! n, ts ! n)}. f (xs ! n, ts ! n))"
proof -
  have "sum_list (map f (filter P (zip xs ts))) =
        sum_list (map (\<lambda>p. if P p then f p else 0) (zip xs ts))"
    by (rule sum_list_map_filter')
  also have "\<dots> = (\<Sum>n = 0..<length (zip xs ts). if P (zip xs ts ! n) then f (zip xs ts ! n) else 0)"
    by (simp add: sum_list_sum_nth)
  also have "\<dots> = (\<Sum>n = 0..<length ts. if P (xs ! n, ts ! n) then f (xs ! n, ts ! n) else 0)"
    using assms by (intro sum.cong) simp_all
  also have "\<dots> = (\<Sum>n \<in> {n. n < length ts \<and> P (xs ! n, ts ! n)}. f (xs ! n, ts ! n))"
  proof -
    have "(\<Sum>n \<in> {n. n < length ts \<and> P (xs ! n, ts ! n)}. f (xs ! n, ts ! n)) =
          (\<Sum>n \<in> {n \<in> {0..<length ts}. P (xs ! n, ts ! n)}. f (xs ! n, ts ! n))"
      by (rule sum.cong) auto
    also have "\<dots> = (\<Sum>n = 0..<length ts. if P (xs ! n, ts ! n) then f (xs ! n, ts ! n) else 0)"
      by (rule sum.inter_filter) simp
    finally show ?thesis by (rule sym)
  qed
  finally show ?thesis .
qed

lemma length_filter_zip:
  assumes "length xs = length ts"
  shows "length (filter P (zip xs ts)) = card {n. n < length ts \<and> P (xs ! n, ts ! n)}"
proof -
  have "length (filter P (zip xs ts)) = card {n. n < length (zip xs ts) \<and> P (zip xs ts ! n)}"
    by (rule length_filter_conv_card)
  also have "{n. n < length (zip xs ts) \<and> P (zip xs ts ! n)} = {n. n < length ts \<and> P (xs ! n, ts ! n)}"
    using assms by auto
  finally show ?thesis .
qed

lemma cross_entropy_mean:
  assumes "F_cross_entropy xs ts ig = Inr (Loss v)"
  shows "v = (\<Sum>n \<in> {n. n < length ts \<and> ts ! n \<noteq> ig}. nll (xs ! n) (ts ! n))
             / real (card {n. n < length ts \<and> ts ! n \<noteq> ig})"
proof -
  from assms have len: "length xs = length ts"
    by (auto simp: F_cross_entropy_def split: if_splits)
  from assms have "v = sum_list (map (\<lambda>p. nll (fst p) (snd p)) (filter (\<lambda>p. snd p \<noteq> ig) (zip xs ts)))
       / real (length (filter (\<lambda>p. snd p \<noteq> ig) (zip xs ts)))"
    by (auto simp: F_cross_entropy_def Let_def split: if_splits)
  then show ?thesis
    by (simp add: sum_list_filter_zip [OF len] length_filter_zip [OF len])
qed

subsection \<open>Forward pass of the smallest torch model\<close>

declare str_nat.simps [simp del]

lemma str_nat_digit: "n < 10 \<Longrightarrow> str_nat n = [''0123456789'' ! n]"
  by (simp add: str_nat.simps)

lemma str_nat_small:
  "str_nat 0 = ''0''" "str_nat (Suc 0) = ''1''" "str_nat (Suc (Suc 0)) = ''2''"
  "str_nat 1 = ''1''" "str_nat 2 = ''2''"
  by (simp_all add: str_nat_digit numeral_2_eq_2)

lemma mask22: "torch_tril (torch_ones 2 2) = [[1, 0], [1, 1]]"
  by (simp add: torch_tril_def torch_ones_def upt_rec numeral_2_eq_2)

lemma ln_zero: "F_layer_norm [0, 0] [1, 1] [0, 0] = [0, 0]"
  by (simp add: F_layer_norm_def vadd_def)

lemma ln_pm:
  "F_layer_norm [a, - a] [1, 1] [0, 0] = [a / sqrt (a\<^sup>2 + 1 / 100000), - a / sqrt (a\<^sup>2 + 1 / 100000)]"
  by (simp add: F_layer_norm_def vadd_def power2_eq_square Let_def)

lemma qkv_eval:
  "F_linear [a, b] [[0, 0], [0, 0], [0, 0], [0, 0], [1, 0], [0, 1]] (Some [0, 0, 0, 0, 0, 0])
     = [0, 0, 0, 0, a, b]"
  by (simp add: F_linear_def dot_def vadd_def)

lemma head_eval:
  assumes "add 0 0 = 1" "add 0 (Suc 0) = 0" "add (Suc 0) 0 = 1" "add (Suc 0) (Suc 0) = 1"
  shows "attention_head (\<lambda>i j. True) add 2
      [[0, 0], [0, 0]] [[0, 0], [0, 0]] [[0, 0], [a, b]] =
   [[a / (exp 1 + 1), b / (exp 1 + 1)], [a / 2, b / 2]]"
  using assms
  by (simp add: attention_head_def dot_def vadd_def vscale_def Let_def numeral_2_eq_2)

lemma multi_head_eval:
  assumes "add 0 0 = 1" "add 0 (Suc 0) = 0" "add (Suc 0) 0 = 1" "add (Suc 0) (Suc 0) = 1"
  shows "multi_head (\<lambda>i j. True) add 2 (Suc 0)
      [[0, 0, 0, 0, 0, 0], [0, 0, 0, 0, a, b]] =
   [[a / (exp 1 + 1), b / (exp 1 + 1)], [a / 2, b / 2]]"
  by (simp add: multi_head_def head_slice_def Let_def head_eval [OF assms])

lemma out_proj_eval:
  "F_linear [a, b] [[1, 0], [0, 1]] (Some [0, 0]) = [a, b]"
  "F_linear [a, b] [[1, 0], [0, 1]] None = [a, b]"
  "F_linear [a, b] [[0, 0], [0, 0]] (Some [0, 0]) = [0, 0]"
  by (simp_all add: F_linear_def dot_def vadd_def)

lemma attn_torch_eval:
  "TorchCausalAttention_forward attn_torch [[[0, 0], [a, b]]] kpm =
     Inr ([[[a / (exp 1 + 1), b / (exp 1 + 1)], [a / 2, b / 2]]], None)"
  by (simp add: attn_torch_def cfg_torch_def TorchCausalAttention_forward_def
      MultiheadAttention_forward_def getattr_m_def bind_e_def mask22
      F_multi_head_attention_forward_def mat_shape_def seq_len_def qkv_eval multi_head_eval
      out_proj_eval)

lemma mlp_eval:
  "GPTMLP_forward (Module GPTMLP
           [(''mlp_up'', Module (Linear [[0, 0], [0, 0]] (Some [0, 0]) False) []),
            (''mlp_act'', Module GELU []),
            (''mlp_down'', Module (Linear [[0, 0], [0, 0]] (Some [0, 0]) True) [])])
      [[[a, b], [c, d]]] = Inr [[[0, 0], [0, 0]]]"
  by (simp add: GPTMLP_forward_def Linear_forward_def GELU_forward_def getattr_m_def bind_e_def
      out_proj_eval)

lemma ln_len2: "\<exists>p q. F_layer_norm [a, b] [1, 1] [0, 0] = [p, q]"
  by (simp add: F_layer_norm_def vadd_def Let_def)

lemma GPTBlock_forward_steps:
  assumes "LayerNorm_forward l1 x = Inr a"
    and "causal_attn_call ca a kpm = Inr (b, w)"
    and "LayerNorm_forward l2 (tadd x b) = Inr m2"
    and "GPTMLP_forward mlp m2 = Inr n"
  shows "GPTBlock_forward (Module GPTBlock
       [(''ln_1'', l1), (''causal_attn'', ca), (''ln_2'', l2), (''mlp'', mlp),
        (''resid_attn_dropout'', Module (Dropout p1) []),
        (''resid_mlp_dropout'', Module (Dropout p2) [])]) x kpm = Inr (tadd (tadd x b) n)"
  using assms
  by (simp add: GPTBlock_forward_def getattr_m_def bind_e_def Dropout_forward_def)

lemma cls_attn_torch: "cls_of attn_torch = TorchCausalAttention [[1, 0], [1, 1]]"
  by (simp add: attn_torch_def cfg_torch_def mask22)

lemma block_torch_eval:
  "GPTBlock_forward block_torch [[[0, 0], [a, - a]]] kpm =
     Inr [[[(a / sqrt (a\<^sup>2 + 1 / 100000)) / (exp 1 + 1), (- a / sqrt (a\<^sup>2 + 1 / 100000)) / (exp 1 + 1)],
           [a + (a / sqrt (a\<^sup>2 + 1 / 100000)) / 2, - a + (- a / sqrt (a\<^sup>2 + 1 / 100000)) / 2]]]"
proof -
  define c where "c = a / sqrt (a\<^sup>2 + 1 / 100000)"
  have ln1: "LayerNorm_forward (Module (LayerNorm [1, 1] [0, 0]) []) [[[0, 0], [a, - a]]]
      = Inr [[[0, 0], [c, - c]]]"
    by (simp add: LayerNorm_forward_def ln_zero ln_pm c_def)
  have at: "causal_attn_call attn_torch [[[0, 0], [c, - c]]] kpm =
      Inr ([[[c / (exp 1 + 1), - c / (exp 1 + 1)], [c / 2, - c / 2]]], None)"
    by (simp add: causal_attn_call_def cls_attn_torch attn_torch_eval)
  have x1: "tadd [[[0, 0], [a, - a]]] [[[c / (exp 1 + 1), - c / (exp 1 + 1)], [c / 2, - c / 2]]]
      = [[[c / (exp 1 + 1), - c / (exp 1 + 1)], [a + c / 2, - a + - c / 2]]]"
    by (simp add: tadd_def vadd_def)
  obtain p q r s where ln2: "LayerNorm_forward (Module (LayerNorm [1, 1] [0, 0]) [])
      [[[c / (exp 1 + 1), - c / (exp 1 + 1)], [a + c / 2, - a + - c / 2]]] = Inr [[[p, q], [r, s]]]"
    using ln_len2 [of "c / (exp 1 + 1)" "- c / (exp 1 + 1)"] ln_len2 [of "a + c / 2" "- a + - c / 2"]
    by (auto simp: LayerNorm_forward_def)
  have "GPTBlock_forward block_torch [[[0, 0], [a, - a]]] kpm =
      Inr (tadd (tadd [[[0, 0], [a, - a]]] [[[c / (exp 1 + 1), - c / (exp 1 + 1)], [c / 2, - c / 2]]])
             [[[0, 0], [0, 0]]])"
    unfolding block_torch_def
  proof (rule GPTBlock_forward_steps [OF ln1 at])
    show "LayerNorm_forward (Module (LayerNorm [1, 1] [0, 0]) [])
        (tadd [[[0, 0], [a, - a]]] [[[c / (exp 1 + 1), - c / (exp 1 + 1)], [c / 2, - c / 2]]])
        = Inr [[[p, q], [r, s]]]"
      unfolding x1 by (rule ln2)
  qed (rule mlp_eval)
  also have "\<dots> = Inr [[[c / (exp 1 + 1), - c / (exp 1 + 1)], [a + c / 2, - a + - c / 2]]]"
    by (simp add: tadd_def vadd_def)
  finally show ?thesis by (simp add: c_def)
qed


lemma GPT_forward_steps:
  assumes "size1 ids \<le> max_seq_len c"
    and "Embedding_forward wte (rows2 ids) = Inr tok_emb"
    and "Embedding_forward wpe [map int [0..<size1 ids]] = Inr pos_emb"
    and "run_blocks (\<lambda>block y. GPTBlock_forward block y kpm) (map snd blocks)
           (map (\<lambda>xb. map2 vadd xb (hd pos_emb)) tok_emb) = Inr x"
    and "LayerNorm_forward ln_f x = Inr y"
  shows "GPT_forward (Module (GPT c)
       [(''transformer'', Module ModuleDict
           [(''wte'', wte), (''wpe'', wpe), (''emb_drop'', Module (Dropout p) []),
            (''blocks'', Module ModuleList blocks), (''ln_f'', ln_f)]),
        (''lm_head'', lm_head)]) ids kpm = Linear_forward lm_head y"
  using assms
  by (simp add: GPT_forward_def getattr_m_def bind_e_def Dropout_forward_def Let_def)

lemma embed_eval:
  "t = 0 \<or> t = 1 \<Longrightarrow>
   Embedding_forward (Module (Embedding [[0, 0], [1, - 1]]) []) (rows2 \<lparr>size0 = 1, size1 = 2, data = [0, t]\<rparr>)
     = Inr [[[0, 0], [real_of_int t, - real_of_int t]]]"
  by (auto simp: Embedding_forward_def F_embedding_def rows2_def)

lemma pos_eval:
  "Embedding_forward (Module (Embedding [[0, 0], [0, 0]]) []) [map int [0..<2]] = Inr [[[0, 0], [0, 0]]]"
  by (simp add: Embedding_forward_def F_embedding_def numeral_2_eq_2)

lemma gpt_torch_eval:
  assumes t: "t = 0 \<or> t = 1"
  shows "\<exists>u v. GPT_forward gpt_torch \<lparr>size0 = 1, size1 = 2, data = [0, t]\<rparr> kpm =
     Inr [[F_layer_norm [(real_of_int t / sqrt ((real_of_int t)\<^sup>2 + 1 / 100000)) / (exp 1 + 1),
                         (- real_of_int t / sqrt ((real_of_int t)\<^sup>2 + 1 / 100000)) / (exp 1 + 1)] [1, 1] [0, 0],
           [u, v]]]"
proof -
  define a where "a = real_of_int t"
  define x where "x = [[[(a / sqrt (a\<^sup>2 + 1 / 100000)) / (exp 1 + 1), (- a / sqrt (a\<^sup>2 + 1 / 100000)) / (exp 1 + 1)],
           [a + (a / sqrt (a\<^sup>2 + 1 / 100000)) / 2, - a + (- a / sqrt (a\<^sup>2 + 1 / 100000)) / 2]]]"
  obtain u v where uv: "F_layer_norm [a + (a / sqrt (a\<^sup>2 + 1 / 100000)) / 2, - a + (- a / sqrt (a\<^sup>2 + 1 / 100000)) / 2] [1, 1] [0, 0] = [u, v]"
    using ln_len2 by blast
  have "GPT_forward gpt_torch \<lparr>size0 = 1, size1 = 2, data = [0, t]\<rparr> kpm =
      Linear_forward (Module (Linear [[1, 0], [0, 1]] None False) [])
        (map (map (\<lambda>v. F_layer_norm v [1, 1] [0, 0])) x)"
    unfolding gpt_torch_def
  proof (rule GPT_forward_steps)
    show "size1 \<lparr>size0 = 1, size1 = 2, data = [0, t]\<rparr> \<le> max_seq_len cfg_torch"
      by (simp add: cfg_torch_def)
    show "Embedding_forward (Module (Embedding [[0, 0], [1, - 1]]) [])
        (rows2 \<lparr>size0 = 1, size1 = 2, data = [0, t]\<rparr>) = Inr [[[0, 0], [a, - a]]]"
      unfolding a_def by (rule embed_eval [OF t])
    show "Embedding_forward (Module (Embedding [[0, 0], [0, 0]]) [])
        [map int [0..<size1 \<lparr>size0 = 1, size1 = 2, data = [0, t]\<rparr>]] = Inr [[[0, 0], [0, 0]]]"
      using pos_eval by simp
    show "run_blocks (\<lambda>block y. GPTBlock_forward block y kpm) (map snd [(''0'', block_torch)])
        (map (\<lambda>xb. map2 vadd xb (hd [[[0, 0], [0, 0]]])) [[[0, 0], [a, - a]]]) = Inr x"
      by (simp add: vadd_def bind_e_def block_torch_eval x_def)
    show "LayerNorm_forward (Module (LayerNorm [1, 1] [0, 0]) []) x =
        Inr (map (map (\<lambda>v. F_layer_norm v [1, 1] [0, 0])) x)"
      by (simp add: LayerNorm_forward_def)
  qed
  then show ?thesis
    using uv ln_len2 [of "(a / sqrt (a\<^sup>2 + 1 / 100000)) / (exp 1 + 1)" "(- a / sqrt (a\<^sup>2 + 1 / 100000)) / (exp 1 + 1)"]
    by (auto simp: Linear_forward_def x_def out_proj_eval a_def)
qed


lemma logit_a:
  "returned (GPT_forward gpt_torch \<lparr>size0 = 1, size1 = 2, data = [0, 0]\<rparr> kpm)
   \<and> logit (GPT_forward gpt_torch \<lparr>size0 = 1, size1 = 2, data = [0, 0]\<rparr> kpm) 0 0 0 = 0"
  using gpt_torch_eval [of 0 kpm] by (auto simp: returned_def logit_def ln_zero)

lemma logit_b:
  "returned (GPT_forward gpt_torch \<lparr>size0 = 1, size1 = 2, data = [0, 1]\<rparr> kpm)
   \<and> 0 < logit (GPT_forward gpt_torch \<lparr>size0 = 1, size1 = 2, data = [0, 1]\<rparr> kpm) 0 0 0"
proof -
  define d :: real where "d = (1 / sqrt (1 + 1 / 100000)) / (exp 1 + 1)"
  have d: "0 < d" unfolding d_def by (intro divide_pos_pos) (simp_all add: add_pos_pos)
  have neg: "(- 1 / sqrt (1 + 1 / 100000)) / (exp 1 + 1) = - d" by (simp add: d_def)
  from gpt_torch_eval [of 1 kpm] obtain u v where
    "GPT_forward gpt_torch \<lparr>size0 = 1, size1 = 2, data = [0, 1]\<rparr> kpm =
       Inr [[F_layer_norm [d, - d] [1, 1] [0, 0], [u, v]]]"
    using neg by (auto simp: d_def)
  then have "returned (GPT_forward gpt_torch \<lparr>size0 = 1, size1 = 2, data = [0, 1]\<rparr> kpm)"
    and "logit (GPT_forward gpt_torch \<lparr>size0 = 1, size1 = 2, data = [0, 1]\<rparr> kpm) 0 0 0
         = d / sqrt (d\<^sup>2 + 1 / 100000)"
    by (simp_all add: returned_def logit_def ln_pm)
  moreover have "0 < d / sqrt (d\<^sup>2 + 1 / 100000)"
    using d by (intro divide_pos_pos) (simp_all add: add_pos_nonneg)
  ultimately show ?thesis by simp
qed

lemmas init_eval_defs =
  GPT_init_def MosaicBert_init_def GPTBlock_init_def BERTBlock_init_def block_init_defs
  GPTMLP_init_def BERTMLP_init_def
  nn_ModuleList_def nn_Linear_def nn_LayerNorm_def nn_Embedding_def
  nn_GELU_def new_param_def param_init_fn_def init_Linear_def
  init_Embedding_def init_LayerNorm_def init_normal_def init_zeros_def init_ones_def py_div_def
  flash_accepts_def

lemma gpt_torch_structure:
  "map_sum id (map_module pshape pshape) (GPT_init flash_accepts cfg_torch Cpu)
     = Inr (map_module shape_mat shape_vec gpt_torch)"
  by (simp add: init_eval_defs cfg_torch_def gpt_torch_def block_torch_def attn_torch_def
      shape_mat_def shape_vec_def seq_len_def str_nat_small)

subsection \<open>Observations on the forward pass and the initialisation\<close>

lemma GPT_forward_rejects_long_input:
  "max_seq_len c < size1 ids \<Longrightarrow>
   GPT_forward (Module (GPT c) ch) ids kpm =
     Inl (AssertionError (''Cannot forward input with seq_len='' @ str_nat (size1 ids)
            @ '', this model only supports seq_len<='' @ str_nat (max_seq_len c)))"
  by (simp add: GPT_forward_def Let_def)

lemma MosaicBert_forward_rejects_long_input:
  "max_seq_len c < size1 ids \<Longrightarrow>
   MosaicBert_forward (Module (MosaicBert c) ch) ids kpm =
     Inl (AssertionError (''Cannot forward input with seq_len='' @ str_nat (size1 ids)
            @ '', this model only supports seq_len<='' @ str_nat (max_seq_len c)))"
  by (simp add: MosaicBert_forward_def Let_def)

lemma torch_in_proj_keeps_default_init:
  "(case GPT_init flash_accepts cfg_torch Cpu of
      Inl e \<Rightarrow> False
    | Inr g \<Rightarrow>
        list_ex (\<lambda>m. case cls_of m of
                        MultiheadAttention w b e n \<Rightarrow> pfill w = Default \<and> pfill b = Default
                      | _ \<Rightarrow> False) (modules g))"
  by (simp add: init_eval_defs cfg_torch_def str_nat_small)

lemma GPT_init_cfg_torch_returns: "returned (GPT_init flash_accepts cfg_torch Cpu)"
  by (simp add: returned_def init_eval_defs cfg_torch_def str_nat_small)

lemma MosaicBert_init_cfg_bert_returns: "returned (MosaicBert_init True flash_accepts cfg_bert)"
  by (simp add: returned_def init_eval_defs cfg_bert_def str_nat_small)

section \<open>The claims\<close>




text \<open>
  Claim C3, as stated, fails: on a Linear whose parameters are on the meta device the
  initialisation pass writes nothing, so after the pass its weight is not drawn from a
  normal distribution and its bias is not zero. The same holds of the GPT that the
  constructor returns for its default device, the meta device: the pass returns, and the
  tree it returns is not initialised.
\<close>

theorem meta_parameters_stay_without_values:
  "apply_fn (param_init_fn cfg_torch) (nn_Linear 2 2 True MetaDevice)
     = Inr (nn_Linear 2 2 True MetaDevice)
   \<and> \<not> initialised cfg_torch (nn_Linear 2 2 True MetaDevice)
   \<and> returned (bind_e (GPT_init flash_accepts cfg_torch MetaDevice)
                 (apply_fn (param_init_fn cfg_torch)))
   \<and> \<not> all_initialised cfg_torch
         (bind_e (GPT_init flash_accepts cfg_torch MetaDevice)
            (apply_fn (param_init_fn cfg_torch)))"
  by (simp add: init_eval_defs cfg_torch_def str_nat_small returned_def all_initialised_def
      initialised_def)

text \<open>
  Claim C3, amended. After \<^verbatim>\<open>param_init_fn\<close> has been applied to every module of a tree
  whose parameters have storage (none on the meta device), every module of the tree is
  initialised as the policy says: residual-branch Linear weights from
  normal(0, \<open>\<sigma> / sqrt (2 L)\<close>), other Linear weights and embedding weights from
  normal(0, \<open>\<sigma>\<close>), Linear biases zero, LayerNorm scales one and biases zero. This holds in
  particular for the GPT and the MosaicBert that their constructors return on a device other
  than meta.
\<close>

theorem param_init_pass_initialises:
  "(materialised m \<and> apply_fn (param_init_fn c) m = Inr m'
      \<longrightarrow> list_all (initialised c) (modules m'))
   \<and> (dev \<noteq> MetaDevice \<and> GPT_init flash_error c dev = Inr g
        \<longrightarrow> list_all (initialised c) (modules g))
   \<and> (device c \<noteq> MetaDevice \<and> MosaicBert_init have_flash flash_error c = Inr b
        \<longrightarrow> list_all (initialised c) (modules b))"
  using apply_param_init_fn_initialised [of m c m'] GPT_init_initialised [of dev flash_error c g]
    MosaicBert_init_initialised [of c have_flash flash_error b]
  by blast

theorem param_init_pass_initialises_witness:
  "materialised (set_is_residual (nn_Linear 2 2 True Cpu))
   \<and> (\<exists>m'. apply_fn (param_init_fn cfg_torch) (set_is_residual (nn_Linear 2 2 True Cpu)) = Inr m'
        \<and> list_all (initialised cfg_torch) (modules m'))
   \<and> (\<exists>g. Cpu \<noteq> MetaDevice \<and> GPT_init flash_accepts cfg_torch Cpu = Inr g
        \<and> list_all (initialised cfg_torch) (modules g))
   \<and> (\<exists>b. device cfg_bert \<noteq> MetaDevice \<and> MosaicBert_init True flash_accepts cfg_bert = Inr b
        \<and> list_all (initialised cfg_bert) (modules b))"
proof -
  have L: "n_layers cfg_torch \<noteq> 0" by (simp add: cfg_torch_def)
  have mat: "materialised (set_is_residual (nn_Linear 2 2 True Cpu))"
    by (simp add: materialised_def has_storage_def nn_Linear_def new_param_def)
  obtain m' where m': "apply_fn (param_init_fn cfg_torch) (set_is_residual (nn_Linear 2 2 True Cpu)) = Inr m'"
    using apply_fn_total [of "param_init_fn cfg_torch", OF param_init_fn_total [OF L]] by blast
  obtain g where g: "GPT_init flash_accepts cfg_torch Cpu = Inr g"
    using GPT_init_cfg_torch_returns by (auto simp: returned_def split: sum.splits)
  obtain b where b: "MosaicBert_init True flash_accepts cfg_bert = Inr b"
    using MosaicBert_init_cfg_bert_returns by (auto simp: returned_def split: sum.splits)
  have d: "device cfg_bert \<noteq> MetaDevice" "Cpu \<noteq> MetaDevice" by (simp_all add: cfg_bert_def)
  show ?thesis
    using param_init_pass_initialises [of "set_is_residual (nn_Linear 2 2 True Cpu)" cfg_torch m'
        Cpu flash_accepts g True]
      param_init_pass_initialises [of _ cfg_bert _ _ flash_accepts _ True b] mat m' g b d
    by blast
qed

text \<open>
  Claim C8. For every module, \<^verbatim>\<open>fsdp_wrap_fn\<close> and \<^verbatim>\<open>activation_checkpointing_fn\<close>
  of the GPT stack are true exactly when the module is a \<^verbatim>\<open>GPTBlock\<close>, those of the
  BERT stack exactly when it is a \<^verbatim>\<open>BERTBlock\<close>, and the two predicates of a stack agree.
\<close>

theorem wrap_and_checkpoint_classify_blocks:
  "GPT_fsdp_wrap_fn m = (cls_of m = GPTBlock)
   \<and> GPT_activation_checkpointing_fn m = (cls_of m = GPTBlock)
   \<and> GPT_fsdp_wrap_fn m = GPT_activation_checkpointing_fn m
   \<and> MosaicBert_fsdp_wrap_fn m = (cls_of m = BERTBlock)
   \<and> MosaicBert_activation_checkpointing_fn m = (cls_of m = BERTBlock)
   \<and> MosaicBert_fsdp_wrap_fn m = MosaicBert_activation_checkpointing_fn m"
  by (cases "cls_of m")
     (simp_all add: GPT_fsdp_wrap_fn_def GPT_activation_checkpointing_fn_def
        MosaicBert_fsdp_wrap_fn_def MosaicBert_activation_checkpointing_fn_def)

text \<open>
  Claim C9. \<^verbatim>\<open>eval_forward(batch, outputs)\<close> returns \<^verbatim>\<open>outputs\<close> unchanged when it is
  supplied and exactly \<^verbatim>\<open>forward(batch)\<close> when it is \<^verbatim>\<open>None\<close>, for every batch, every
  outputs value and every model, in both adapters.
\<close>

theorem eval_forward_reuses_outputs:
  "ComposerGPT_eval_forward model batch h (Some out) = Inr out
   \<and> ComposerGPT_eval_forward model batch h None = ComposerGPT_forward model batch h
   \<and> ComposerMosaicBert_eval_forward model batch h (Some out) = Inr out
   \<and> ComposerMosaicBert_eval_forward model batch h None = ComposerMosaicBert_forward model batch h"
  by (simp add: ComposerGPT_eval_forward_def ComposerMosaicBert_eval_forward_def)

text \<open>
  Claim C5. For the causal adapter, the target at position \<open>i\<close> of every row is the label
  originally at position \<open>i + 1\<close> of that row, and the target at the last position is
  \<open>-100\<close> whatever the labels are; labels \<open>[a, b, c, d]\<close> give \<open>[b, c, d, -100]\<close>. The
  result has the shape of the labels.
\<close>

theorem get_targets_shifts_labels:
  assumes "batch ''labels'' = Some l"
  shows "(wf_tensor2 (store h l) \<and> b < size0 (store h l) \<and> i < size1 (store h l) \<longrightarrow>
          (\<exists>r h'. ComposerGPT_get_targets batch h = Inr (r, h')
             \<and> size0 (store h' r) = size0 (store h l) \<and> size1 (store h' r) = size1 (store h l)
             \<and> wf_tensor2 (store h' r)
             \<and> at2 (store h' r) b i =
                 (if Suc i = size1 (store h l) then - 100 else at2 (store h l) b (Suc i))))
       \<and> (store h l = \<lparr>size0 = 1, size1 = 4, data = [x1, x2, x3, x4]\<rparr> \<longrightarrow>
          (\<exists>r h'. ComposerGPT_get_targets batch h = Inr (r, h')
             \<and> store h' r = \<lparr>size0 = 1, size1 = 4, data = [x2, x3, x4, - 100]\<rparr>))"
  using assms get_targets_value [where batch = batch and l = l and h = h and b = b and i = i]
    get_targets_example [where batch = batch and l = l and h = h and a = x1 and b = x2 and c = x3 and d = x4]
  by blast

theorem get_targets_shifts_labels_witness:
  "batch_labels ''labels'' = Some 0
   \<and> wf_tensor2 (store (heap_with \<lparr>size0 = 1, size1 = 4, data = [11, 12, 13, 14]\<rparr>) 0)
   \<and> (\<exists>r h'. ComposerGPT_get_targets batch_labels
                 (heap_with \<lparr>size0 = 1, size1 = 4, data = [11, 12, 13, 14]\<rparr>) = Inr (r, h')
          \<and> at2 (store h' r) 0 1 = 13 \<and> at2 (store h' r) 0 3 = - 100
          \<and> store h' r = \<lparr>size0 = 1, size1 = 4, data = [12, 13, 14, - 100]\<rparr>)"
proof -
  let ?t = "\<lparr>size0 = 1, size1 = 4, data = [11, 12, 13, 14]\<rparr>"
  have l: "batch_labels ''labels'' = Some 0" by (simp add: batch_labels_def)
  have wf: "wf_tensor2 (store (heap_with ?t) 0)" by (simp add: heap_with_def wf_tensor2_def)
  have st: "store (heap_with ?t) 0 = ?t" by (simp add: heap_with_def)
  from get_targets_shifts_labels [where batch = batch_labels and l = 0 and h = "heap_with ?t"
      and b = 0 and i = 1 and ?x1.0 = 11 and ?x2.0 = 12 and ?x3.0 = 13 and ?x4.0 = 14] l st
  obtain r h' where r: "ComposerGPT_get_targets batch_labels (heap_with ?t) = Inr (r, h')"
    and v: "store h' r = \<lparr>size0 = 1, size1 = 4, data = [12, 13, 14, - 100]\<rparr>"
    by auto
  from v have "at2 (store h' r) 0 1 = 13" "at2 (store h' r) 0 3 = - 100"
    by (simp_all add: at2_def)
  with l wf r v show ?thesis by blast
qed

text \<open>
  Claim C10. The causal adapter's \<^verbatim>\<open>get_targets\<close> leaves the batch's labels as they
  were: the tensor it returns is a new object, distinct from \<^verbatim>\<open>batch['labels']\<close>, and the
  write of \<open>-100\<close> goes to that new object; no object that existed before the call is
  changed.
\<close>

theorem get_targets_preserves_labels:
  assumes "batch ''labels'' = Some l" and "l < next_ref h" and "p < next_ref h"
    and "ComposerGPT_get_targets batch h = Inr (r, h')"
  shows "store h' l = store h l \<and> r \<noteq> l \<and> store h' p = store h p \<and> r \<noteq> p"
  using get_targets_frame [OF assms(4) assms(2)] get_targets_frame [OF assms(4) assms(3)]
  by simp

theorem get_targets_preserves_labels_witness:
  "batch_labels ''labels'' = Some 0
   \<and> 0 < next_ref (heap_with \<lparr>size0 = 1, size1 = 4, data = [11, 12, 13, 14]\<rparr>)
   \<and> (\<exists>r h'. ComposerGPT_get_targets batch_labels
                 (heap_with \<lparr>size0 = 1, size1 = 4, data = [11, 12, 13, 14]\<rparr>) = Inr (r, h')
          \<and> store h' 0 = \<lparr>size0 = 1, size1 = 4, data = [11, 12, 13, 14]\<rparr>
          \<and> store h' r = \<lparr>size0 = 1, size1 = 4, data = [12, 13, 14, - 100]\<rparr>
          \<and> r \<noteq> 0)"
proof -
  let ?t = "\<lparr>size0 = 1, size1 = 4, data = [11, 12, 13, 14]\<rparr>"
  have l: "batch_labels ''labels'' = Some 0" by (simp add: batch_labels_def)
  have n: "0 < next_ref (heap_with ?t)" by (simp add: heap_with_def)
  have st: "store (heap_with ?t) 0 = ?t" by (simp add: heap_with_def)
  obtain r h' where r: "ComposerGPT_get_targets batch_labels (heap_with ?t) = Inr (r, h')"
    and v: "store h' r = \<lparr>size0 = 1, size1 = 4, data = [12, 13, 14, - 100]\<rparr>"
    using get_targets_example [where batch = batch_labels and l = 0 and h = "heap_with ?t"] l st
    by blast
  from get_targets_preserves_labels [where batch = batch_labels and l = 0 and p = 0
      and h = "heap_with ?t" and r = r and h' = h'] l n r st
  have "store h' 0 = ?t" "r \<noteq> 0" by simp_all
  with l n r v show ?thesis by blast
qed

lemma cross_entropy_mean_nll:
  "F_cross_entropy xs tg (- 100) = Inr (Loss v) \<Longrightarrow> v = mean_nll xs tg"
  by (simp add: mean_nll_def included_def cross_entropy_mean)

lemma cross_entropy_included:
  assumes "length xs = length xs'" and "\<And>n. n \<in> included tg \<Longrightarrow> xs ! n = xs' ! n"
  shows "F_cross_entropy xs tg (- 100) = F_cross_entropy xs' tg (- 100)"
  using assms by (intro cross_entropy_ignores) (simp_all add: included_def)

lemma ComposerGPT_loss_eq:
  "ComposerGPT_loss outputs batch h =
     (case ComposerGPT_get_targets batch h of
        Inl e \<Rightarrow> Inl e
      | Inr (r, h1) \<Rightarrow>
          (case F_cross_entropy (concat outputs) (data (store h1 r)) (- 100) of
             Inl e \<Rightarrow> Inl e
           | Inr v \<Rightarrow> Inr (v, h1)))"
  by (simp add: ComposerGPT_loss_def bind_e_def split: sum.splits prod.splits)

lemma ComposerMosaicBert_loss_eq:
  "ComposerMosaicBert_loss outputs batch h =
     (case batch ''labels'' of
        None \<Rightarrow> Inl (KeyError ''labels'')
      | Some l \<Rightarrow>
          (case F_cross_entropy (concat outputs) (data (store h l)) (- 100) of
             Inl e \<Rightarrow> Inl e
           | Inr v \<Rightarrow> Inr (v, h)))"
  by (simp add: ComposerMosaicBert_loss_def ComposerMosaicBert_get_targets_def getitem_def
      bind_e_def split: sum.splits option.splits)

text \<open>
  Claim C6. A loss that is returned is the mean, over the positions whose target is not
  \<open>-100\<close>, of the negative log-likelihood of the target class under the softmax of that
  position's row of the flattened outputs; the targets are those of \<^verbatim>\<open>get_targets\<close>. Two
  outputs of the same size that agree at every included position give the same result, so
  the logits at the positions labelled \<open>-100\<close> have no influence. Both adapters.
\<close>

theorem loss_ignores_sentinel_positions:
  "(ComposerGPT_loss outputs batch h = Inr (Loss v, h') \<longrightarrow>
      (\<exists>r. ComposerGPT_get_targets batch h = Inr (r, h')
         \<and> v = mean_nll (concat outputs) (data (store h' r))))
   \<and> (ComposerGPT_get_targets batch h = Inr (r, h1)
        \<and> length (concat outputs) = length (concat outputs')
        \<and> (\<forall>n \<in> included (data (store h1 r)). concat outputs ! n = concat outputs' ! n)
      \<longrightarrow> ComposerGPT_loss outputs batch h = ComposerGPT_loss outputs' batch h)
   \<and> (ComposerMosaicBert_loss outputs batch h = Inr (Loss v, h') \<longrightarrow>
      (\<exists>l. batch ''labels'' = Some l \<and> h' = h
         \<and> v = mean_nll (concat outputs) (data (store h l))))
   \<and> (batch ''labels'' = Some l
        \<and> length (concat outputs) = length (concat outputs')
        \<and> (\<forall>n \<in> included (data (store h l)). concat outputs ! n = concat outputs' ! n)
      \<longrightarrow> ComposerMosaicBert_loss outputs batch h = ComposerMosaicBert_loss outputs' batch h)"
proof (intro conjI impI)
  assume "ComposerGPT_loss outputs batch h = Inr (Loss v, h')"
  then show "\<exists>r. ComposerGPT_get_targets batch h = Inr (r, h')
         \<and> v = mean_nll (concat outputs) (data (store h' r))"
    by (auto simp: ComposerGPT_loss_eq split: sum.splits prod.splits dest: cross_entropy_mean_nll)
next
  assume a: "ComposerGPT_get_targets batch h = Inr (r, h1)
        \<and> length (concat outputs) = length (concat outputs')
        \<and> (\<forall>n \<in> included (data (store h1 r)). concat outputs ! n = concat outputs' ! n)"
  then have "F_cross_entropy (concat outputs) (data (store h1 r)) (- 100)
      = F_cross_entropy (concat outputs') (data (store h1 r)) (- 100)"
    by (intro cross_entropy_included) simp_all
  with a show "ComposerGPT_loss outputs batch h = ComposerGPT_loss outputs' batch h"
    by (simp add: ComposerGPT_loss_eq)
next
  assume "ComposerMosaicBert_loss outputs batch h = Inr (Loss v, h')"
  then show "\<exists>l. batch ''labels'' = Some l \<and> h' = h
         \<and> v = mean_nll (concat outputs) (data (store h l))"
    by (auto simp: ComposerMosaicBert_loss_eq split: sum.splits option.splits
        dest: cross_entropy_mean_nll)
next
  assume a: "batch ''labels'' = Some l
        \<and> length (concat outputs) = length (concat outputs')
        \<and> (\<forall>n \<in> included (data (store h l)). concat outputs ! n = concat outputs' ! n)"
  then have "F_cross_entropy (concat outputs) (data (store h l)) (- 100)
      = F_cross_entropy (concat outputs') (data (store h l)) (- 100)"
    by (intro cross_entropy_included) simp_all
  with a show "ComposerMosaicBert_loss outputs batch h = ComposerMosaicBert_loss outputs' batch h"
    by (simp add: ComposerMosaicBert_loss_eq)
qed

lemma gpt_targets_011:
  "ComposerGPT_get_targets batch_labels (heap_with \<lparr>size0 = 1, size1 = 3, data = [0, 1, 1]\<rparr>) =
     Inr (1, \<lparr>store = (\<lambda>r. \<lparr>size0 = 1, size1 = 3, data = [0, 1, 1]\<rparr>)
                (1 := \<lparr>size0 = 1, size1 = 3, data = [1, 1, - 100]\<rparr>), next_ref = 2\<rparr>)"
  by (simp add: ComposerGPT_get_targets_eq batch_labels_def heap_with_def setitem_col_def
      torch_roll_def Let_def)

lemma nll_00: "nll [0, 0] 1 = ln 2"
  by (simp add: nll_def)

lemma gpt_loss_011:
  "ComposerGPT_loss [[[0, 0], [0, 0], [p, q]]] batch_labels
      (heap_with \<lparr>size0 = 1, size1 = 3, data = [0, 1, 1]\<rparr>) =
     Inr (Loss (ln 2), \<lparr>store = (\<lambda>r. \<lparr>size0 = 1, size1 = 3, data = [0, 1, 1]\<rparr>)
                (1 := \<lparr>size0 = 1, size1 = 3, data = [1, 1, - 100]\<rparr>), next_ref = 2\<rparr>)"
  by (subst ComposerGPT_loss_eq, subst gpt_targets_011) (simp add: F_cross_entropy_def nll_00)

lemma bert_loss_11:
  "ComposerMosaicBert_loss [[[0, 0], [0, 0], [p, q]]] batch_labels
      (heap_with \<lparr>size0 = 1, size1 = 3, data = [1, 1, - 100]\<rparr>) =
     Inr (Loss (ln 2), heap_with \<lparr>size0 = 1, size1 = 3, data = [1, 1, - 100]\<rparr>)"
  by (simp add: ComposerMosaicBert_loss_eq batch_labels_def heap_with_def F_cross_entropy_def nll_00)

lemma included_11: "included [1, 1, - 100] = {0, 1}"
  by (auto simp: included_def nth_Cons' numeral_3_eq_3 less_Suc_eq)

theorem loss_ignores_sentinel_positions_witness:
  "ComposerGPT_loss [[[0, 0], [0, 0], [0, 0]]] batch_labels
      (heap_with \<lparr>size0 = 1, size1 = 3, data = [0, 1, 1]\<rparr>) =
     Inr (Loss (ln 2), \<lparr>store = (\<lambda>r. \<lparr>size0 = 1, size1 = 3, data = [0, 1, 1]\<rparr>)
                (1 := \<lparr>size0 = 1, size1 = 3, data = [1, 1, - 100]\<rparr>), next_ref = 2\<rparr>)
   \<and> ln 2 = mean_nll [[0, 0], [0, 0], [0, 0]] [1, 1, - 100]
   \<and> ComposerGPT_loss [[[0, 0], [0, 0], [0, 0]]] batch_labels
        (heap_with \<lparr>size0 = 1, size1 = 3, data = [0, 1, 1]\<rparr>)
      = ComposerGPT_loss [[[0, 0], [0, 0], [7, 9]]] batch_labels
        (heap_with \<lparr>size0 = 1, size1 = 3, data = [0, 1, 1]\<rparr>)
   \<and> ComposerMosaicBert_loss [[[0, 0], [0, 0], [0, 0]]] batch_labels
        (heap_with \<lparr>size0 = 1, size1 = 3, data = [1, 1, - 100]\<rparr>)
      = Inr (Loss (ln 2), heap_with \<lparr>size0 = 1, size1 = 3, data = [1, 1, - 100]\<rparr>)
   \<and> ComposerMosaicBert_loss [[[0, 0], [0, 0], [0, 0]]] batch_labels
        (heap_with \<lparr>size0 = 1, size1 = 3, data = [1, 1, - 100]\<rparr>)
      = ComposerMosaicBert_loss [[[0, 0], [0, 0], [7, 9]]] batch_labels
        (heap_with \<lparr>size0 = 1, size1 = 3, data = [1, 1, - 100]\<rparr>)"
proof -
  let ?hg = "heap_with \<lparr>size0 = 1, size1 = 3, data = [0, 1, 1]\<rparr>"
  let ?hg' = "\<lparr>store = (\<lambda>r. \<lparr>size0 = 1, size1 = 3, data = [0, 1, 1]\<rparr>)
                (1 := \<lparr>size0 = 1, size1 = 3, data = [1, 1, - 100]\<rparr>), next_ref = 2\<rparr>"
  let ?hb = "heap_with \<lparr>size0 = 1, size1 = 3, data = [1, 1, - 100]\<rparr>"
  let ?o1 = "[[[0, 0], [0, 0], [0, 0 :: real]]]"
  let ?o2 = "[[[0, 0], [0, 0], [7, 9 :: real]]]"
  have g1: "ComposerGPT_loss ?o1 batch_labels ?hg = Inr (Loss (ln 2), ?hg')"
    by (rule gpt_loss_011)
  have b1: "ComposerMosaicBert_loss ?o1 batch_labels ?hb = Inr (Loss (ln 2), ?hb)"
    by (rule bert_loss_11)
  have lab: "batch_labels ''labels'' = Some 0" by (simp add: batch_labels_def)
  have agree: "\<forall>n \<in> included [1, 1, - 100]. concat ?o1 ! n = concat ?o2 ! n"
    by (simp add: included_11)
  have len: "length (concat ?o1) = length (concat ?o2)" by simp
  have m: "ln 2 = mean_nll [[0, 0], [0, 0], [0, 0]] [1, 1, - 100]"
  proof -
    from loss_ignores_sentinel_positions [where outputs = ?o1 and batch = batch_labels
        and h = ?hg and v = "ln 2" and h' = ?hg', THEN conjunct1] g1
    obtain r where r: "ComposerGPT_get_targets batch_labels ?hg = Inr (r, ?hg')"
      and v: "ln 2 = mean_nll (concat ?o1) (data (store ?hg' r))"
      by blast
    from r have "r = 1" by (simp only: gpt_targets_011 sum.inject prod.inject)
    with v show ?thesis by simp
  qed
  have g2: "ComposerGPT_loss ?o1 batch_labels ?hg = ComposerGPT_loss ?o2 batch_labels ?hg"
  proof (rule loss_ignores_sentinel_positions [where outputs = ?o1 and outputs' = ?o2
        and batch = batch_labels and h = ?hg and r = 1 and ?h1.0 = ?hg',
        THEN conjunct2, THEN conjunct1, THEN mp], intro conjI)
    show "ComposerGPT_get_targets batch_labels ?hg = Inr (1, ?hg')" by (rule gpt_targets_011)
    show "length (concat ?o1) = length (concat ?o2)" by simp
    show "\<forall>n \<in> included (data (store ?hg' 1)). concat ?o1 ! n = concat ?o2 ! n"
      by (simp add: included_11)
  qed
  have b2: "ComposerMosaicBert_loss ?o1 batch_labels ?hb = ComposerMosaicBert_loss ?o2 batch_labels ?hb"
  proof (rule loss_ignores_sentinel_positions [where outputs = ?o1 and outputs' = ?o2
        and batch = batch_labels and h = ?hb and l = 0,
        THEN conjunct2, THEN conjunct2, THEN conjunct2, THEN mp], intro conjI)
    show "batch_labels ''labels'' = Some 0" by (rule lab)
    show "length (concat ?o1) = length (concat ?o2)" by simp
    show "\<forall>n \<in> included (data (store ?hb 0)). concat ?o1 ! n = concat ?o2 ! n"
      by (simp add: included_11 heap_with_def)
  qed
  have mb: "ln 2 = mean_nll [[0, 0], [0, 0], [0, 0]] [1, 1, - 100]"
  proof -
    from loss_ignores_sentinel_positions [where outputs = ?o1 and batch = batch_labels
        and h = ?hb and v = "ln 2" and h' = ?hb,
        THEN conjunct2, THEN conjunct2, THEN conjunct1] b1
    obtain l where "batch_labels ''labels'' = Some l"
      and v: "ln 2 = mean_nll (concat ?o1) (data (store ?hb l))"
      by blast
    then show ?thesis by (simp add: heap_with_def)
  qed
  show ?thesis using g1 m mb g2 b1 b2 by blast
qed

text \<open>
  Claim C1, on the \<^verbatim>\<open>torch\<close> attention. The two inputs \<open>[0, 0]\<close> and \<open>[0, 1]\<close> agree at
  position 0 and differ only at position 1; the forward pass of the smallest torch model
  returns for both, and the logit of class 0 at position 0 is 0 for the first and positive
  for the second. The mask \<^verbatim>\<open>tril(ones)\<close> is a float mask, which the library adds to the
  scores: position 0 gives the future position 1 the weight \<open>1 / (exp 1 + 1)\<close>.
\<close>

theorem torch_logits_depend_on_future_token:
  "at2 \<lparr>size0 = 1, size1 = 2, data = [0, 0]\<rparr> 0 0 = at2 \<lparr>size0 = 1, size1 = 2, data = [0, 1]\<rparr> 0 0
   \<and> returned (GPT_forward gpt_torch \<lparr>size0 = 1, size1 = 2, data = [0, 0]\<rparr> (Some [[True, True]]))
   \<and> returned (GPT_forward gpt_torch \<lparr>size0 = 1, size1 = 2, data = [0, 1]\<rparr> (Some [[True, True]]))
   \<and> logit (GPT_forward gpt_torch \<lparr>size0 = 1, size1 = 2, data = [0, 0]\<rparr> (Some [[True, True]])) 0 0 0 = 0
   \<and> 0 < logit (GPT_forward gpt_torch \<lparr>size0 = 1, size1 = 2, data = [0, 1]\<rparr> (Some [[True, True]])) 0 0 0
   \<and> map_sum id (map_module pshape pshape) (GPT_init flash_accepts cfg_torch Cpu)
       = Inr (map_module shape_mat shape_vec gpt_torch)"
  using logit_a [of "Some [[True, True]]"] logit_b [of "Some [[True, True]]"] gpt_torch_structure
  by (simp add: at2_def)

text \<open>
  Claim C2, on the \<^verbatim>\<open>torch\<close> attention. With the validity mask \<open>[True, False]\<close>, which
  marks position 1 as padding, the output of \<^verbatim>\<open>TorchCausalAttention.forward\<close> at position
  0 is \<open>1 / (exp 1 + 1)\<close> times the value at the padded position 1, not zero times: the
  method receives \<^verbatim>\<open>key_padding_mask\<close> and does not pass it on, and its result is the same
  for every mask.
\<close>

theorem torch_attention_attends_to_padding:
  "TorchCausalAttention_forward attn_torch [[[0, 0], [1, - 1]]] (Some [[True, False]])
     = Inr ([[[1 / (exp 1 + 1), - 1 / (exp 1 + 1)], [1 / 2, - 1 / 2]]], None)
   \<and> TorchCausalAttention_forward attn_torch [[[0, 0], [0, 0]]] (Some [[True, False]])
     = Inr ([[[0, 0], [0, 0]]], None)
   \<and> 1 / (exp 1 + 1) \<noteq> (0 :: real)
   \<and> TorchCausalAttention_forward attn_torch [[[0, 0], [1, - 1]]] (Some [[True, False]])
     = TorchCausalAttention_forward attn_torch [[[0, 0], [1, - 1]]] None"
proof -
  have "exp 1 + 1 > (0 :: real)" by (simp add: add_pos_pos)
  then have "1 / (exp 1 + 1) \<noteq> (0 :: real)" by simp
  then show ?thesis
    using attn_torch_eval [of 1 "- 1" "Some [[True, False]]"]
      attn_torch_eval [of 0 0 "Some [[True, False]]"] attn_torch_eval [of 1 "- 1" None]
    by simp
qed

text \<open>
  Claim C4, on the \<^verbatim>\<open>torch\<close> attention. With \<^verbatim>\<open>max_seq_len = 2\<close> a batch of one
  sequence of length 1 passes the length assertion of \<^verbatim>\<open>GPT.forward\<close> and then fails in
  the first block: the mask buffer has the shape (2, 2) and is handed to the library whole,
  which requires the shape (1, 1).
\<close>

theorem torch_forward_fails_on_shorter_sequence:
  "size1 \<lparr>size0 = 1, size1 = 1, data = [0]\<rparr> \<le> max_seq_len cfg_torch
   \<and> GPT_forward gpt_torch \<lparr>size0 = 1, size1 = 1, data = [0]\<rparr> (Some [[True]]) =
     Inl (RuntimeError ''The shape of the 2D attn_mask is torch.Size([2, 2]), but should be (1, 1).'')"
  by (simp add: gpt_torch_def block_torch_def attn_torch_def cfg_torch_def
      GPT_forward_def GPTBlock_forward_def causal_attn_call_def TorchCausalAttention_forward_def
      MultiheadAttention_forward_def LayerNorm_forward_def Dropout_forward_def
      Embedding_forward_def getattr_m_def bind_e_def
      F_multi_head_attention_forward_def F_embedding_def rows2_def mat_shape_def seq_len_def
      mask22 ln_zero vadd_def str_nat_small)

end
